theory Spec2Isabelle
  imports Main
begin

section \<open>Quiz editor: data model\<close>

text \<open>
  The development follows \<^verbatim>\<open>src/components/QuizEditor.tsx\<close>. A JavaScript string is
  a list of characters; every character stands for one code unit below 256. React state
  is an explicit record that each handler takes and returns; a property read on
  \<^verbatim>\<open>undefined\<close> is the error value \<open>TypeError\<close>.
\<close>

subsection \<open>Content blocks\<close>

text \<open>
  An inline item of a block's \<^verbatim>\<open>content\<close> array is a plain string or an object with an
  optional \<^verbatim>\<open>text\<close> field. A block has a \<^verbatim>\<open>type\<close>, optionally an \<^verbatim>\<open>id\<close> (the editor
  gives one to every block it has touched), \<^verbatim>\<open>props\<close>, an optional \<^verbatim>\<open>content\<close> array,
  an optional direct \<^verbatim>\<open>text\<close> and \<^verbatim>\<open>children\<close>.
\<close>

datatype inline =
    InlineStr string
  | InlineObj (itype: string) (itext: "string option") (istyles: "string list")

datatype block =
  Block (btype: string) (bid: "string option") (bprops: "(string \<times> int) list")
        (bcontent: "inline list option") (btext: "string option") (bchildren: "block list")

subsection \<open>Strings: \<^verbatim>\<open>join\<close> and \<^verbatim>\<open>trim\<close>\<close>

text \<open>Among the code units below 256, \<^verbatim>\<open>String.prototype.trim\<close> strips TAB, LF, VT, FF,
  CR, SPACE and NBSP.\<close>

definition js_whitespace :: "char \<Rightarrow> bool" where
  "js_whitespace c =
     (c = CHR 0x09 \<or> c = CHR 0x0A \<or> c = CHR 0x0B \<or> c = CHR 0x0C \<or> c = CHR 0x0D
      \<or> c = CHR 0x20 \<or> c = CHR 0xA0)"

definition trim :: "string \<Rightarrow> string" where
  "trim s = rev (dropWhile js_whitespace (rev (dropWhile js_whitespace s)))"

fun join :: "string \<Rightarrow> string list \<Rightarrow> string" where
  "join sep [] = []"
| "join sep [x] = x"
| "join sep (x # y # ys) = x @ sep @ join sep (y # ys)"

subsection \<open>\<^verbatim>\<open>extractTextFromBlocks\<close>\<close>

text \<open>\<^verbatim>\<open>typeof item === 'string' ? item : (item.text || "")\<close>\<close>

definition inline_text :: "inline \<Rightarrow> string" where
  "inline_text item =
     (case item of
        InlineStr s \<Rightarrow> s
      | InlineObj _ t _ \<Rightarrow> (case t of Some s \<Rightarrow> s | None \<Rightarrow> []))"

text \<open>\<^verbatim>\<open>block.content ? block.content.map(...).join("") : ""\<close>\<close>

definition content_text :: "inline list option \<Rightarrow> string" where
  "content_text c = (case c of None \<Rightarrow> [] | Some items \<Rightarrow> concat (map inline_text items))"

definition block_text :: "block \<Rightarrow> string" where
  "block_text b =
     (if btype b = ''paragraph'' then content_text (bcontent b)
      else if btype b = ''heading'' then content_text (bcontent b)
      else if btype b = ''bulletListItem'' \<or> btype b = ''numberedListItem''
              \<or> btype b = ''checkListItem'' then content_text (bcontent b)
      else if btype b = ''codeBlock'' then content_text (bcontent b)
      else (case btext b of
              Some t \<Rightarrow> (if t \<noteq> [] then t else [])
            | None \<Rightarrow> []))"

text \<open>Every caller passes an array (\<^verbatim>\<open>x || []\<close>, or a guard on \<^verbatim>\<open>!x\<close> first), so the
  \<^verbatim>\<open>!blocks\<close> half of the first test is never taken.\<close>

definition extractTextFromBlocks :: "block list \<Rightarrow> string" where
  "extractTextFromBlocks blocks =
     (if length blocks = 0 then []
      else trim (join [CHR 0x0A] (map block_text blocks)))"

subsection \<open>Scorecards, questions\<close>

datatype scorecard_id = NumId int | StrId string

record criterion =
  cname :: string
  cdescription :: string
  minScore :: int
  maxScore :: int

record scorecard =
  sc_id :: scorecard_id
  sc_name :: string
  sc_new :: bool
  is_template :: bool
  criteria :: "criterion list"

datatype question_type = Objective | Subjective | Coding
datatype input_type = TextInput | CodeInput | AudioInput
datatype response_type = Chat | Report

record config =
  inputType :: input_type
  responseType :: response_type
  questionType :: question_type
  correctAnswer :: "block list option"
  scorecardData :: "scorecard option"
  knowledgeBaseBlocks :: "block list option"
  linkedMaterialIds :: "string list option"
  codingLanguages :: "string list option"

record question =
  qid :: string
  qcontent :: "block list"
  qconfig :: config

definition defaultQuestionConfig :: config where
  "defaultQuestionConfig =
     \<lparr> inputType = TextInput, responseType = Chat, questionType = Objective,
       correctAnswer = None, scorecardData = None,
       knowledgeBaseBlocks = Some [], linkedMaterialIds = Some [],
       codingLanguages = None \<rparr>"

subsection \<open>\<^verbatim>\<open>getKnowledgeBaseContent\<close>\<close>

record kb_payload =
  kb_blocks :: "block list"
  kb_linkedMaterialIds :: "string list"

definition or_empty :: "'a list option \<Rightarrow> 'a list" where
  "or_empty x = (case x of None \<Rightarrow> [] | Some xs \<Rightarrow> xs)"

definition getKnowledgeBaseContent :: "config \<Rightarrow> kb_payload option" where
  "getKnowledgeBaseContent cfg =
     (let kbBlocks = or_empty (knowledgeBaseBlocks cfg);
          ids = or_empty (linkedMaterialIds cfg);
          hasNonEmptyBlocks =
            (length kbBlocks > 0 \<and> length (trim (extractTextFromBlocks kbBlocks)) > 0);
          hasLinkedMaterials = (length ids > 0)
      in if hasNonEmptyBlocks \<or> hasLinkedMaterials
         then Some \<lparr> kb_blocks = (if hasNonEmptyBlocks then kbBlocks else []),
                     kb_linkedMaterialIds = (if hasLinkedMaterials then ids else []) \<rparr>
         else None)"

definition is_media :: "block \<Rightarrow> bool" where
  "is_media b = (btype b = ''image'' \<or> btype b = ''audio'' \<or> btype b = ''video'')"

text \<open>A media block that carries no direct \<^verbatim>\<open>text\<close>.\<close>

definition media_without_text :: "block \<Rightarrow> bool" where
  "media_without_text b = (is_media b \<and> (btext b = None \<or> btext b = Some []))"

subsection \<open>Editor state, props and what the handlers emit\<close>

datatype tab = QuestionTab | AnswerTab | ScorecardTab | KnowledgeTab
datatype field = QuestionField | AnswerField | CodingLanguageField
datatype quiz_status = Draft | Published
datatype error = TypeError

record dropdown_option =
  opt_value :: string
  opt_label :: string

text \<open>A dropdown hands its handler one option or an array of options.\<close>

datatype 'a selection = Single 'a | Many "'a list"

text \<open>Calls of the callback props, custom events on \<^verbatim>\<open>document\<close> and \<^verbatim>\<open>console.error\<close>
  lines, in the order in which they happen.\<close>

datatype event =
    OnChange "question list"
  | OnValidationError string string
  | OnQuestionChange string
  | HighlightCriterion nat string
  | ConsoleError string

record props =
  status :: quiz_status
  isPreviewMode :: bool
  taskId :: "string option"
  schoolId :: "string option"
  onChange_given :: bool
  onValidationError_given :: bool
  onQuestionChange_given :: bool

record editor_state =
  questions :: "question list"
  originalQuestions :: "question list"
  isLoadingQuestions :: bool
  hasFetchedData :: bool
  schoolScorecards :: "scorecard list"
  isLoadingScorecards :: bool
  currentQuestionIndex :: nat
  activeEditorTab :: tab
  highlightedField :: "field option"
  showDeleteConfirm :: bool
  selectedQuestionType :: question_type
  selectedCodingLanguages :: "dropdown_option list"
  toast :: "(string \<times> string) option"
  emitted :: "event list"

text \<open>The component's state right after mounting (the \<^verbatim>\<open>useState\<close> initial values).
  The two dropdown states start at the first option of their tables.\<close>

definition initial_state :: "question_type \<Rightarrow> dropdown_option \<Rightarrow> editor_state" where
  "initial_state firstType firstLanguage =
     \<lparr> questions = [], originalQuestions = [], isLoadingQuestions = True,
       hasFetchedData = False, schoolScorecards = [], isLoadingScorecards = False,
       currentQuestionIndex = 0, activeEditorTab = QuestionTab, highlightedField = None,
       showDeleteConfirm = False, selectedQuestionType = firstType,
       selectedCodingLanguages = [firstLanguage], toast = None, emitted = [] \<rparr>"

definition emit :: "event \<Rightarrow> editor_state \<Rightarrow> editor_state" where
  "emit e s = s\<lparr> emitted := emitted s @ [e] \<rparr>"

text \<open>\<^verbatim>\<open>if (onChange) onChange(updatedQuestions)\<close>\<close>

definition onChange :: "props \<Rightarrow> question list \<Rightarrow> editor_state \<Rightarrow> editor_state" where
  "onChange p qs s = (if onChange_given p then emit (OnChange qs) s else s)"

text \<open>\<^verbatim>\<open>if (onValidationError) onValidationError(title, message)\<close>\<close>

definition onValidationError :: "props \<Rightarrow> string \<Rightarrow> string \<Rightarrow> editor_state \<Rightarrow> editor_state" where
  "onValidationError p title message s =
     (if onValidationError_given p then emit (OnValidationError title message) s else s)"

text \<open>Decimal digits of a number, for the \<^verbatim>\<open>${i + 1}\<close> of the messages.\<close>

fun string_of_nat :: "nat \<Rightarrow> string" where
  "string_of_nat n =
     (if n < 10 then [char_of (48 + n)]
      else string_of_nat (n div 10) @ [char_of (48 + n mod 10)])"

declare string_of_nat.simps [simp del]

subsection \<open>Validation\<close>

text \<open>\<^verbatim>\<open>highlightField\<close> sets the field; a timer clears it four seconds later, which is
  outside this model.\<close>

definition highlightField :: "field \<Rightarrow> editor_state \<Rightarrow> editor_state" where
  "highlightField f s = s\<lparr> highlightedField := Some f \<rparr>"

definition validateQuestionContent :: "block list \<Rightarrow> bool" where
  "validateQuestionContent content =
     (if length content = 0 then False
      else if length (trim (extractTextFromBlocks content)) > 0 then True
      else list_ex is_media content)"

definition validateCorrectAnswer :: "config \<Rightarrow> bool" where
  "validateCorrectAnswer questionConfig =
     (case correctAnswer questionConfig of
        Some answer \<Rightarrow>
          (if length answer > 0 then length (trim (extractTextFromBlocks answer)) > 0
           else False)
      | None \<Rightarrow> False)"

definition validateScorecard :: "config \<Rightarrow> bool" where
  "validateScorecard questionConfig =
     (case scorecardData questionConfig of
        Some sc \<Rightarrow> length (criteria sc) > 0
      | None \<Rightarrow> False)"

text \<open>\<^verbatim>\<open>!x || x.trim() === ''\<close>\<close>

definition blank :: "string \<Rightarrow> bool" where
  "blank x = (x = [] \<or> trim x = [])"

text \<open>The \<^verbatim>\<open>for\<close> loop of \<^verbatim>\<open>validateScorecardCriteria\<close>: the index of the first criterion
  with a blank name or description, and which of the two.\<close>

fun criteriaLoop :: "nat \<Rightarrow> criterion list \<Rightarrow> (nat \<times> string) option" where
  "criteriaLoop i [] = None"
| "criteriaLoop i (c # cs) =
     (if blank (cname c) then Some (i, ''name'')
      else if blank (cdescription c) then Some (i, ''description'')
      else criteriaLoop (Suc i) cs)"

text \<open>The scorecard tab is set at once; the custom event and the message follow 250 ms
  later and are recorded after it.\<close>

definition validateScorecardCriteria ::
  "props \<Rightarrow> scorecard option \<Rightarrow> nat option \<Rightarrow> editor_state \<Rightarrow> bool \<times> editor_state" where
  "validateScorecardCriteria p sc_opt questionIndex s =
     (case sc_opt of
        None \<Rightarrow> (True, s)
      | Some sc \<Rightarrow>
          if \<not> sc_new sc then (True, s)
          else (case criteriaLoop 0 (criteria sc) of
                  None \<Rightarrow> (True, s)
                | Some (index, fld) \<Rightarrow>
                    (False,
                     onValidationError p ''Empty Scorecard Parameter''
                       (''Please provide a '' @ fld @ '' for parameter ''
                          @ string_of_nat (index + 1) @ '' in the scorecard''
                          @ (case questionIndex of
                               Some qi \<Rightarrow> '' for question '' @ string_of_nat (qi + 1)
                             | None \<Rightarrow> []))
                       (emit (HighlightCriterion index fld)
                          (s\<lparr> activeEditorTab := ScorecardTab \<rparr>)))))"

text \<open>The body of the \<^verbatim>\<open>for\<close> loop of \<^verbatim>\<open>validateAllQuestions\<close> for question \<open>i\<close>: \<open>False\<close>
  is a \<^verbatim>\<open>return false\<close>, \<open>True\<close> goes on to the next question.\<close>

definition validateQuestionAt ::
  "props \<Rightarrow> nat \<Rightarrow> question \<Rightarrow> editor_state \<Rightarrow> bool \<times> editor_state" where
  "validateQuestionAt p i q s =
     (if \<not> validateQuestionContent (qcontent q) then
        (False,
         onValidationError p ''Empty Question''
           (''Question '' @ string_of_nat (i + 1)
              @ '' is empty. Please add details to the question'')
           (highlightField QuestionField
              (s\<lparr> currentQuestionIndex := i, activeEditorTab := QuestionTab \<rparr>)))
      else if questionType (qconfig q) = Coding
              \<and> length (or_empty (codingLanguages (qconfig q))) = 0 then
        (False,
         onValidationError p ''Missing Coding Languages''
           (''Question '' @ string_of_nat (i + 1)
              @ '' does not have any programming language selected'')
           (highlightField CodingLanguageField (s\<lparr> currentQuestionIndex := i \<rparr>)))
      else if (questionType (qconfig q) = Objective \<or> questionType (qconfig q) = Coding)
              \<and> \<not> validateCorrectAnswer (qconfig q) then
        (False,
         onValidationError p ''Empty Correct Answer''
           (''Question '' @ string_of_nat (i + 1)
              @ '' has no correct answer. Please add a correct answer'')
           (highlightField AnswerField
              (s\<lparr> currentQuestionIndex := i, activeEditorTab := AnswerTab \<rparr>)))
      else if questionType (qconfig q) = Subjective then
        (if \<not> validateScorecard (qconfig q) then
           (False,
            onValidationError p ''Missing Scorecard''
              (''Question '' @ string_of_nat (i + 1)
                 @ '' has no scorecard. Please add a scorecard for evaluating the answer'')
              (s\<lparr> currentQuestionIndex := i, activeEditorTab := ScorecardTab \<rparr>))
         else (case scorecardData (qconfig q) of
                 None \<Rightarrow> (True, s)
               | Some sc \<Rightarrow>
                   validateScorecardCriteria p (Some sc) (Some i)
                     (s\<lparr> currentQuestionIndex := i \<rparr>)))
      else (True, s))"

fun validateLoop ::
  "props \<Rightarrow> nat \<Rightarrow> question list \<Rightarrow> editor_state \<Rightarrow> bool \<times> editor_state" where
  "validateLoop p i [] s = (True, s)"
| "validateLoop p i (q # qs) s =
     (case validateQuestionAt p i q s of
        (ok, s') \<Rightarrow> if ok then validateLoop p (Suc i) qs s' else (False, s'))"

text \<open>\<^verbatim>\<open>validateAllQuestions\<close>, which the imperative handle exposes as
  \<^verbatim>\<open>validateBeforePublish\<close>.\<close>

definition validateAllQuestions :: "props \<Rightarrow> editor_state \<Rightarrow> bool \<times> editor_state" where
  "validateAllQuestions p s =
     (if length (questions s) = 0 then
        (False,
         onValidationError p ''No Questions''
           ''Please add at least one question before publishing'' s)
      else validateLoop p 0 (questions s) s)"

text \<open>The validation order in the words of the specification: which check a question
  fails first, and the tab that failure asks for.\<close>

datatype failed_check =
    NoQuestions
  | EmptyContent
  | NoCodingLanguages
  | NoCorrectAnswer
  | NoScorecard
  | BlankCriterion nat string

fun required_tab :: "failed_check \<Rightarrow> tab option" where
  "required_tab NoQuestions = None"
| "required_tab EmptyContent = Some QuestionTab"
| "required_tab NoCodingLanguages = None"
| "required_tab NoCorrectAnswer = Some AnswerTab"
| "required_tab NoScorecard = Some ScorecardTab"
| "required_tab (BlankCriterion i f) = Some ScorecardTab"

definition spec_content_nonempty :: "block list \<Rightarrow> bool" where
  "spec_content_nonempty content =
     (\<not> blank (extractTextFromBlocks content) \<or> list_ex is_media content)"

definition spec_has_answer :: "config \<Rightarrow> bool" where
  "spec_has_answer cfg =
     (case correctAnswer cfg of
        None \<Rightarrow> False
      | Some answer \<Rightarrow> \<not> blank (extractTextFromBlocks answer))"

fun spec_first_blank :: "nat \<Rightarrow> criterion list \<Rightarrow> failed_check option" where
  "spec_first_blank i [] = None"
| "spec_first_blank i (c # cs) =
     (if blank (cname c) then Some (BlankCriterion i ''name'')
      else if blank (cdescription c) then Some (BlankCriterion i ''description'')
      else spec_first_blank (Suc i) cs)"

definition spec_check_question :: "question \<Rightarrow> failed_check option" where
  "spec_check_question q =
     (if \<not> spec_content_nonempty (qcontent q) then Some EmptyContent
      else if questionType (qconfig q) = Coding \<and> or_empty (codingLanguages (qconfig q)) = []
        then Some NoCodingLanguages
      else if (questionType (qconfig q) = Objective \<or> questionType (qconfig q) = Coding)
              \<and> \<not> spec_has_answer (qconfig q)
        then Some NoCorrectAnswer
      else if questionType (qconfig q) = Subjective then
        (case scorecardData (qconfig q) of
           None \<Rightarrow> Some NoScorecard
         | Some sc \<Rightarrow>
             if criteria sc = [] then Some NoScorecard
             else if sc_new sc then spec_first_blank 0 (criteria sc)
             else None)
      else None)"

text \<open>The first question, in sequence order from index \<open>i\<close>, that fails a check.\<close>

fun spec_first_failure :: "nat \<Rightarrow> question list \<Rightarrow> (nat \<times> failed_check) option" where
  "spec_first_failure i [] = None"
| "spec_first_failure i (q # qs) =
     (case spec_check_question q of
        Some f \<Rightarrow> Some (i, f)
      | None \<Rightarrow> spec_first_failure (Suc i) qs)"

text \<open>\<open>None\<close> is success; a failure names the question it is at, if any.\<close>

definition spec_validate :: "question list \<Rightarrow> (nat option \<times> failed_check) option" where
  "spec_validate qs =
     (if qs = [] then Some (None, NoQuestions)
      else (case spec_first_failure 0 qs of
              None \<Rightarrow> None
            | Some (i, f) \<Rightarrow> Some (Some i, f)))"

subsection \<open>Navigation and deletion\<close>

text \<open>\<^verbatim>\<open>goToPreviousQuestion\<close>. \<^verbatim>\<open>questions[newIndex]\<close> is \<^verbatim>\<open>undefined\<close> when the index
  is past the end, and reading its \<^verbatim>\<open>config\<close> throws; the read happens only on the
  scorecard and answer tabs, since \<^verbatim>\<open>&&\<close> evaluates its left side first.\<close>

definition goToPreviousQuestion :: "props \<Rightarrow> editor_state \<Rightarrow> error + editor_state" where
  "goToPreviousQuestion p s =
     (if currentQuestionIndex s > 0 then
        (let newIndex = currentQuestionIndex s - 1 in
         if (activeEditorTab s = ScorecardTab \<or> activeEditorTab s = AnswerTab)
            \<and> \<not> newIndex < length (questions s)
         then Inl TypeError
         else
           (let s1 = (if activeEditorTab s = ScorecardTab
                         \<and> questionType (qconfig (questions s ! newIndex)) \<noteq> Subjective
                      then s\<lparr> activeEditorTab := QuestionTab \<rparr>
                      else if activeEditorTab s = AnswerTab
                         \<and> questionType (qconfig (questions s ! newIndex)) = Subjective
                      then s\<lparr> activeEditorTab := QuestionTab \<rparr>
                      else s);
                s2 = s1\<lparr> currentQuestionIndex := newIndex \<rparr>
            in Inr (if onQuestionChange_given p \<and> newIndex < length (questions s)
                       \<and> \<not> isPreviewMode p
                    then emit (OnQuestionChange (qid (questions s ! newIndex))) s2
                    else s2)))
      else Inr s)"

text \<open>\<^verbatim>\<open>goToNextQuestion\<close>. The guard \<^verbatim>\<open>currentQuestionIndex < questions.length - 1\<close> keeps
  the new index inside the array, so nothing can throw. (With no question the right side
  is \<open>-1\<close> in JavaScript and \<open>0\<close> here; the index is never negative, so the test is false
  either way.)\<close>

definition goToNextQuestion :: "props \<Rightarrow> editor_state \<Rightarrow> editor_state" where
  "goToNextQuestion p s =
     (if currentQuestionIndex s < length (questions s) - 1 then
        (let newIndex = currentQuestionIndex s + 1;
             s1 = (if activeEditorTab s = ScorecardTab
                      \<and> questionType (qconfig (questions s ! newIndex)) \<noteq> Subjective
                   then s\<lparr> activeEditorTab := QuestionTab \<rparr>
                   else if activeEditorTab s = AnswerTab
                      \<and> questionType (qconfig (questions s ! newIndex)) = Subjective
                   then s\<lparr> activeEditorTab := QuestionTab \<rparr>
                   else s);
             s2 = s1\<lparr> currentQuestionIndex := newIndex \<rparr>
         in if onQuestionChange_given p \<and> \<not> isPreviewMode p
            then emit (OnQuestionChange (qid (questions s ! newIndex))) s2
            else s2)
      else s)"

text \<open>\<^verbatim>\<open>Array.prototype.splice(start, 1)\<close> with \<open>start \<ge> 0\<close>: past the end it removes
  nothing.\<close>

definition splice1 :: "nat \<Rightarrow> 'a list \<Rightarrow> 'a list" where
  "splice1 start xs = take start xs @ drop (Suc start) xs"

definition deleteQuestion :: "props \<Rightarrow> editor_state \<Rightarrow> editor_state" where
  "deleteQuestion p s =
     (if length (questions s) \<le> 1 then
        onChange p [] (s\<lparr> questions := [], showDeleteConfirm := False \<rparr>)
      else
        (let updatedQuestions = splice1 (currentQuestionIndex s) (questions s);
             s1 = s\<lparr> questions := updatedQuestions \<rparr>;
             s2 = (if currentQuestionIndex s \<ge> length updatedQuestions
                   then s1\<lparr> currentQuestionIndex := length updatedQuestions - 1 \<rparr>
                   else s1);
             s3 = onChange p updatedQuestions s2
         in s3\<lparr> showDeleteConfirm := False \<rparr>))"

text \<open>Which tabs the specification allows for a question type: the scorecard tab needs a
  subjective question, the answer tab an objective or coding one, the other two tabs
  fit every type.\<close>

fun spec_tab_valid :: "tab \<Rightarrow> question_type \<Rightarrow> bool" where
  "spec_tab_valid ScorecardTab t = (t = Subjective)"
| "spec_tab_valid AnswerTab t = (t = Objective \<or> t = Coding)"
| "spec_tab_valid QuestionTab t = True"
| "spec_tab_valid KnowledgeTab t = True"

subsection \<open>Question templates\<close>

text \<open>The parts of \<^verbatim>\<open>getQuestionTemplateBlocks\<close>, under the names of its local constants. Template blocks carry no \<^verbatim>\<open>id\<close>.\<close>

definition commonBlocks :: "block list" where
  "commonBlocks =
     [Block ''heading'' None [(''level'', 2)]
         (Some [(InlineObj ''text'' (Some ''Welcome to the Question Editor!'') [])]) None [],
      Block ''paragraph'' None []
         (Some [(InlineObj ''text'' (Some ''This is where you will create your question. You can modify this template or remove it to start from scratch.'') [])]) None [],
      Block ''paragraph'' None []
         (Some [(InlineObj ''text'' (Some '''') [])]) None [],
      Block ''heading'' None [(''level'', 3)]
         (Some [(InlineObj ''text'' (Some ''Question Types'') [])]) None [],
      Block ''paragraph'' None []
         (Some [(InlineObj ''text'' (Some ''You can select from these question types:'') [])]) None [],
      Block ''bulletListItem'' None []
         (Some [(InlineObj ''text'' (Some ''Objective'') [''bold'']),
            (InlineObj ''text'' (Some '': For questions with specific correct answers (multiple choice, true/false, etc.)'') [])]) None [],
      Block ''bulletListItem'' None []
         (Some [(InlineObj ''text'' (Some ''Subjective'') [''bold'']),
            (InlineObj ''text'' (Some '': For questions that don't have a single correct answer.'') [])]) None [],
      Block ''bulletListItem'' None []
         (Some [(InlineObj ''text'' (Some ''Coding'') [''bold'']),
            (InlineObj ''text'' (Some '': For questions that require learners to write code as their answer'') [])]) None [],
      Block ''paragraph'' None []
         (Some [(InlineObj ''text'' (Some '''') [])]) None []]"

definition answerTypeBlocks :: "question_type \<Rightarrow> block list" where
  "answerTypeBlocks qtype =
     (if qtype \<noteq> Coding then
     [Block ''heading'' None [(''level'', 3)]
         (Some [(InlineObj ''text'' (Some ''Answer Types'') [])]) None [],
      Block ''paragraph'' None []
         (Some [(InlineObj ''text'' (Some ''You can select from these answer types:'') [])]) None [],
      Block ''bulletListItem'' None []
         (Some [(InlineObj ''text'' (Some ''Text'') [''bold'']),
            (InlineObj ''text'' (Some '': Learners need to type their answer'') [])]) None [],
      Block ''bulletListItem'' None []
         (Some [(InlineObj ''text'' (Some ''Audio'') [''bold'']),
            (InlineObj ''text'' (Some '': Learners need to record their answer'') [])]) None [],
      Block ''paragraph'' None []
         (Some [(InlineObj ''text'' (Some '''') [])]) None []]
      else [])"

definition programmingLanguagesBlocks :: "question_type \<Rightarrow> block list" where
  "programmingLanguagesBlocks qtype =
     (if qtype = Coding then
     [Block ''heading'' None [(''level'', 3)]
         (Some [(InlineObj ''text'' (Some ''Programming Languages'') [])]) None [],
      Block ''paragraph'' None []
         (Some [(InlineObj ''text'' (Some ''You should select the programming languages learners will use to answer the question. You can select multiple languages from the dropdown.'') [])]) None [],
      Block ''paragraph'' None []
         (Some [(InlineObj ''text'' (Some '''') [])]) None []]
      else [])"

definition tabsExplanationBlocks :: "question_type \<Rightarrow> block list" where
  "tabsExplanationBlocks qtype =
     (if qtype = Objective then
     [Block ''heading'' None [(''level'', 3)]
         (Some [(InlineObj ''text'' (Some ''Editor Tabs'') [])]) None [],
      Block ''paragraph'' None []
         (Some [(InlineObj ''text'' (Some ''The Question Editor has three tabs for this question type:'') [])]) None [],
      Block ''bulletListItem'' None []
         (Some [(InlineObj ''text'' (Some ''Question'') [''bold'']),
            (InlineObj ''text'' (Some '': (Current tab) Where you write the question text'') [])]) None [],
      Block ''bulletListItem'' None []
         (Some [(InlineObj ''text'' (Some ''Correct Answer'') [''bold'']),
            (InlineObj ''text'' (Some '': Where you provide the expected answer for automatic evaluation'') [])]) None [],
      Block ''bulletListItem'' None []
         (Some [(InlineObj ''text'' (Some ''AI Training'') [''bold'']),
            (InlineObj ''text'' (Some '': Where you can add knowledge base content to help AI evaluate learner responses'') [])]) None []]
      else if qtype = Subjective then
     [Block ''heading'' None [(''level'', 3)]
         (Some [(InlineObj ''text'' (Some ''Editor Tabs'') [])]) None [],
      Block ''paragraph'' None []
         (Some [(InlineObj ''text'' (Some ''The Question Editor has three tabs for this question type:'') [])]) None [],
      Block ''bulletListItem'' None []
         (Some [(InlineObj ''text'' (Some ''Question'') [''bold'']),
            (InlineObj ''text'' (Some '': (Current tab) Where you write the question text'') [])]) None [],
      Block ''bulletListItem'' None []
         (Some [(InlineObj ''text'' (Some ''Scorecard'') [''bold'']),
            (InlineObj ''text'' (Some '': Where you define grading criteria for subjective responses'') [])]) None [],
      Block ''bulletListItem'' None []
         (Some [(InlineObj ''text'' (Some ''AI Training'') [''bold'']),
            (InlineObj ''text'' (Some '': Where you can add knowledge base content to help AI evaluate learner responses'') [])]) None []]
      else
     [Block ''heading'' None [(''level'', 3)]
         (Some [(InlineObj ''text'' (Some ''Editor Tabs'') [])]) None [],
      Block ''paragraph'' None []
         (Some [(InlineObj ''text'' (Some ''The Question Editor has three tabs for this question type:'') [])]) None [],
      Block ''bulletListItem'' None []
         (Some [(InlineObj ''text'' (Some ''Question'') [''bold'']),
            (InlineObj ''text'' (Some '': (Current tab) Where you write the question text'') [])]) None [],
      Block ''bulletListItem'' None []
         (Some [(InlineObj ''text'' (Some ''Correct Answer'') [''bold'']),
            (InlineObj ''text'' (Some '': Where you provide the expected code solution'') [])]) None [],
      Block ''bulletListItem'' None []
         (Some [(InlineObj ''text'' (Some ''AI Training'') [''bold'']),
            (InlineObj ''text'' (Some '': Where you can add knowledge base content to help AI evaluate learner code solutions'') [])]) None []])"

definition blockTypesBlocks :: "block list" where
  "blockTypesBlocks =
     [Block ''heading'' None [(''level'', 3)]
         (Some [(InlineObj ''text'' (Some ''Available Block Types'') [])]) None [],
      Block ''paragraph'' None []
         (Some [(InlineObj ''text'' (Some ''Here are some examples of the different types of blocks you can use:'') [])]) None [],
      Block ''heading'' None [(''level'', 2)]
         (Some [(InlineObj ''text'' (Some ''Headings (like this one)'') [])]) None [],
      Block ''bulletListItem'' None []
         (Some [(InlineObj ''text'' (Some ''Bullet lists (like this)'') [])]) None [],
      Block ''numberedListItem'' None []
         (Some [(InlineObj ''text'' (Some ''Numbered lists (like this)'') [])]) None [],
      Block ''checkListItem'' None []
         (Some [(InlineObj ''text'' (Some ''Check lists (like this)'') [])]) None [],
      Block ''paragraph'' None []
         (Some [(InlineObj ''text'' (Some ''Regular paragraphs for your main content'') [])]) None [],
      Block ''paragraph'' None []
         (Some [(InlineObj ''text'' (Some ''Insert images/videos/audio clips by clicking the + icon on the left and selecting Image/Video/Audio'') [])]) None [],
      Block ''paragraph'' None []
         (Some [(InlineObj ''text'' (Some ''Insert code blocks by clicking the + icon on the left and selecting Code Block'') [])]) None [],
      Block ''paragraph'' None []
         (Some [(InlineObj ''text'' (Some '''') [])]) None [],
      Block ''heading'' None [(''level'', 3)]
         (Some [(InlineObj ''text'' (Some ''Creating Nested Content'') [])]) None [],
      Block ''paragraph'' None []
         (Some [(InlineObj ''text'' (Some ''You can create nested content in two ways:'') [])]) None [],
      Block ''bulletListItem'' None []
         (Some [(InlineObj ''text'' (Some ''Using the Tab key: Simply press Tab while your cursor is on a block to indent it'') [])]) None [],
      Block ''bulletListItem'' None []
         (Some [(InlineObj ''text'' (Some ''Using the side menu: Hover near the left edge of a block, click the menu icon (the button with 6 dots), and drag the block to the desired nested position inside another block'') [])]) None [],
      Block ''paragraph'' None []
         (Some [(InlineObj ''text'' (Some '''') [])]) None [],
      Block ''paragraph'' None []
         (Some [(InlineObj ''text'' (Some ''Here is an example of a nested list:'') [''bold''])]) None [],
      Block ''bulletListItem'' None []
         (Some [(InlineObj ''text'' (Some ''Main topic 1'') [])]) None
         [Block ''bulletListItem'' None [(''indent'', 1)]
             (Some [(InlineObj ''text'' (Some ''Subtopic 1.1 (indented using Tab or side menu)'') [])]) None [],
          Block ''bulletListItem'' None [(''indent'', 1)]
             (Some [(InlineObj ''text'' (Some ''Subtopic 1.2'') [])]) None
             [Block ''bulletListItem'' None [(''indent'', 2)]
                 (Some [(InlineObj ''text'' (Some ''Further nested item (press Tab again to create deeper nesting)'') [])]) None []]],
      Block ''paragraph'' None []
         (Some [(InlineObj ''text'' (Some '''') [])]) None []]"

definition effectiveQuestionsBlocks :: "block list" where
  "effectiveQuestionsBlocks =
     [Block ''heading'' None [(''level'', 3)]
         (Some [(InlineObj ''text'' (Some ''Writing Effective Questions'') [])]) None [],
      Block ''paragraph'' None []
         (Some [(InlineObj ''text'' (Some ''For best results:'') [])]) None [],
      Block ''bulletListItem'' None []
         (Some [(InlineObj ''text'' (Some ''Be clear and specific in your question text'') [])]) None []]"

definition questionTypeTipsBlocks :: "question_type \<Rightarrow> block list" where
  "questionTypeTipsBlocks qtype =
     (if qtype = Subjective then
     [Block ''bulletListItem'' None []
         (Some [(InlineObj ''text'' (Some ''Create a detailed scorecard with clear evaluation criteria or pick one of the templates already provided'') [])]) None []]
      else if qtype = Coding then
     [Block ''bulletListItem'' None []
         (Some [(InlineObj ''text'' (Some ''Provide a clear problem statement and any constraints or performance requirements'') [])]) None []]
      else
     [Block ''bulletListItem'' None []
         (Some [(InlineObj ''text'' (Some ''Make sure your correct answer is complete and matches the expected format'') [])]) None []])"

definition previewPublishBlocks :: "block list" where
  "previewPublishBlocks =
     [Block ''paragraph'' None []
         (Some [(InlineObj ''text'' (Some '''') [])]) None [],
      Block ''heading'' None [(''level'', 3)]
         (Some [(InlineObj ''text'' (Some ''Preview and Publishing'') [])]) None [],
      Block ''paragraph'' None []
         (Some [(InlineObj ''text'' (Some ''When you're ready to test your quiz:'') [])]) None [],
      Block ''bulletListItem'' None []
         (Some [(InlineObj ''text'' (Some ''Preview Button'') [''bold'']),
            (InlineObj ''text'' (Some '': Lets you see and answer the question exactly as a learner will see it'') [])]) None [],
      Block ''bulletListItem'' None []
         (Some [(InlineObj ''text'' (Some ''Publish Button'') [''bold'']),
            (InlineObj ''text'' (Some '': Makes the quiz available to learners. You can always edit and publish again'') [])]) None [],
      Block ''paragraph'' None []
         (Some [(InlineObj ''text'' (Some '''') [])]) None [],
      Block ''paragraph'' None []
         (Some [(InlineObj ''text'' (Some ''Delete this template when you are ready to create your own question!'') [])]) None []]"

definition getQuestionTemplateBlocks :: "question_type \<Rightarrow> block list" where
  "getQuestionTemplateBlocks qtype =
     commonBlocks
     @ answerTypeBlocks qtype
     @ programmingLanguagesBlocks qtype
     @ tabsExplanationBlocks qtype
     @ [Block ''paragraph'' None [] (Some [(InlineObj ''text'' (Some '''') [])]) None []]
     @ blockTypesBlocks
     @ effectiveQuestionsBlocks
     @ questionTypeTipsBlocks qtype
     @ previewPublishBlocks"

subsection \<open>Changing the configuration of the current question\<close>

text \<open>\<^verbatim>\<open>'id' in block\<close>\<close>

definition has_id :: "block \<Rightarrow> bool" where
  "has_id b = (bid b \<noteq> None)"

text \<open>
  \<^verbatim>\<open>handleConfigChange(configUpdate, options)\<close>. The partial configuration that the
  source spreads over the old one is a function on configurations here. \<open>options\<close> is
  \<open>Some t\<close> for \<^verbatim>\<open>{ updateTemplate: true, newQuestionType: t }\<close>, the only options object
  a caller ever passes, and \<open>None\<close> for no options. With questions present and the index
  past the end, \<^verbatim>\<open>updatedQuestions[currentQuestionIndex].config\<close> throws.
\<close>

definition handleConfigChange ::
  "props \<Rightarrow> (config \<Rightarrow> config) \<Rightarrow> question_type option \<Rightarrow> editor_state
     \<Rightarrow> error + editor_state" where
  "handleConfigChange p configUpdate options s =
     (if length (questions s) = 0 then Inr s
      else if \<not> currentQuestionIndex s < length (questions s) then Inl TypeError
      else
        (let old = questions s ! currentQuestionIndex s;
             q1 = old\<lparr> qconfig := configUpdate (qconfig old) \<rparr>;
             q2 = (case options of
                     None \<Rightarrow> q1
                   | Some newQuestionType \<Rightarrow>
                       if status p = Draft then
                         (let hasUserModifiedContent = list_ex has_id (qcontent q1)
                          in if \<not> hasUserModifiedContent
                             then q1\<lparr> qcontent := getQuestionTemplateBlocks newQuestionType \<rparr>
                             else q1)
                       else q1);
             updatedQuestions = (questions s)[currentQuestionIndex s := q2]
         in Inr (onChange p updatedQuestions (s\<lparr> questions := updatedQuestions \<rparr>))))"

text \<open>\<^verbatim>\<open>currentQuestionConfig\<close>: the configuration of the current question, the default one
  when the index points at nothing.\<close>

definition currentQuestionConfig :: "editor_state \<Rightarrow> config" where
  "currentQuestionConfig s =
     (if currentQuestionIndex s < length (questions s)
      then qconfig (questions s ! currentQuestionIndex s)
      else defaultQuestionConfig)"

text \<open>\<^verbatim>\<open>handleQuestionTypeChange\<close>: a single-select dropdown; an array is ignored.\<close>

definition handleQuestionTypeChange ::
  "props \<Rightarrow> question_type selection \<Rightarrow> editor_state \<Rightarrow> error + editor_state" where
  "handleQuestionTypeChange p option s =
     (case option of
        Many _ \<Rightarrow> Inr s
      | Single newQuestionType \<Rightarrow>
          (case handleConfigChange p
                  (\<lambda>c. c\<lparr> questionType := newQuestionType,
                           responseType := (if newQuestionType = Subjective then Report else Chat),
                           inputType := (if newQuestionType = Coding then TextInput
                                         else inputType (currentQuestionConfig s)) \<rparr>)
                  (Some newQuestionType)
                  (s\<lparr> selectedQuestionType := newQuestionType \<rparr>) of
             Inl e \<Rightarrow> Inl e
           | Inr s' \<Rightarrow> Inr (s'\<lparr> activeEditorTab := QuestionTab \<rparr>)))"

text \<open>The name of the second tab as the editor shows it for a question type.\<close>

definition second_tab_label :: "question_type \<Rightarrow> string" where
  "second_tab_label t = (if t = Subjective then ''Scorecard'' else ''Correct Answer'')"

text \<open>The bold lead-in of a list item of the template, which names what the item
  explains.\<close>

definition item_label :: "block \<Rightarrow> string" where
  "item_label b =
     (case bcontent b of
        Some (item # _) \<Rightarrow> inline_text item
      | _ \<Rightarrow> [])"

subsection \<open>Coding languages\<close>

definition exclusiveLanguages :: "string list" where
  "exclusiveLanguages = [''react'', ''sql'', ''python'', ''nodejs'']"

text \<open>\<^verbatim>\<open>exclusiveLanguages.includes(opt.value)\<close>\<close>

definition is_exclusive :: "dropdown_option \<Rightarrow> bool" where
  "is_exclusive opt = List.member exclusiveLanguages (opt_value opt)"

text \<open>\<^verbatim>\<open>Array.isArray(option) ? option : [option]\<close>\<close>

definition selection_list :: "'a selection \<Rightarrow> 'a list" where
  "selection_list option = (case option of Many opts \<Rightarrow> opts | Single opt \<Rightarrow> [opt])"

text \<open>
  The first half of \<^verbatim>\<open>handleCodingLanguageChange\<close>: the validated options and the
  message, \<open>[]\<close> for none. \<^verbatim>\<open>codingLanguageOptions\<close> is imported from
  \<^verbatim>\<open>./dropdownOptions\<close> and is a parameter here.
\<close>

definition validateLanguageOptions ::
  "dropdown_option list \<Rightarrow> dropdown_option list \<Rightarrow> dropdown_option list \<times> string" where
  "validateLanguageOptions codingLanguageOptions selectedOptions =
     (let exclusiveSelectedLanguages =
            filter is_exclusive selectedOptions
      in if length exclusiveSelectedLanguages > 0 then
           (let lastExclusiveLanguage = last exclusiveSelectedLanguages
            in if length selectedOptions > 1 then
                 ([lastExclusiveLanguage],
                  opt_label lastExclusiveLanguage
                    @ '' must be used alone. Other languages cannot be added along with it.'')
               else (selectedOptions, []))
         else
           (let hasCSS = list_ex (\<lambda>opt. opt_value opt = ''css'') selectedOptions;
                hasHTML = list_ex (\<lambda>opt. opt_value opt = ''html'') selectedOptions
            in if hasCSS \<and> \<not> hasHTML then
                 (case find (\<lambda>opt. opt_value opt = ''html'') codingLanguageOptions of
                    Some htmlOption \<Rightarrow>
                      (selectedOptions @ [htmlOption],
                       ''HTML has been automatically selected because CSS requires HTML'')
                  | None \<Rightarrow> (selectedOptions, []))
               else (selectedOptions, [])))"

text \<open>The toast is shown by a timer 100 ms after the handler; it is recorded as the last
  step. Its emoji is left out.\<close>

definition handleCodingLanguageChange ::
  "props \<Rightarrow> dropdown_option list \<Rightarrow> dropdown_option selection \<Rightarrow> editor_state
     \<Rightarrow> error + editor_state" where
  "handleCodingLanguageChange p codingLanguageOptions option s =
     (let selectedOptions = selection_list option;
          validated = validateLanguageOptions codingLanguageOptions selectedOptions;
          validatedOptions = fst validated;
          invalidMessage = snd validated
      in case handleConfigChange p
                (\<lambda>c. c\<lparr> codingLanguages := Some (map opt_value validatedOptions) \<rparr>)
                None
                (s\<lparr> selectedCodingLanguages := validatedOptions \<rparr>) of
           Inl e \<Rightarrow> Inl e
         | Inr s' \<Rightarrow>
             Inr (if invalidMessage \<noteq> []
                  then s'\<lparr> toast := Some (''Language Selection Updated'', invalidMessage) \<rparr>
                  else s'))"

subsection \<open>Scorecards: deleting and syncing\<close>

text \<open>\<^verbatim>\<open>removeScorecardFromSchoolScoreboards\<close>, which the confirmation dialog of the
  scorecard's delete button calls.\<close>

definition detach :: "scorecard_id \<Rightarrow> question \<Rightarrow> question" where
  "detach i q =
     (case scorecardData (qconfig q) of
        Some sc \<Rightarrow>
          if sc_id sc = i then q\<lparr> qconfig := (qconfig q)\<lparr> scorecardData := None \<rparr> \<rparr> else q
      | None \<Rightarrow> q)"

definition removeScorecardFromSchoolScoreboards ::
  "props \<Rightarrow> editor_state \<Rightarrow> error + editor_state" where
  "removeScorecardFromSchoolScoreboards p s =
     (if \<not> currentQuestionIndex s < length (questions s) then Inl TypeError
      else
        (case scorecardData (qconfig (questions s ! currentQuestionIndex s)) of
           None \<Rightarrow> Inr s
         | Some scorecardForQuestion \<Rightarrow>
             (let s1 = (if sc_new scorecardForQuestion
                        then s\<lparr> schoolScorecards :=
                                 filter (\<lambda>sc. sc_id sc \<noteq> sc_id scorecardForQuestion)
                                   (schoolScorecards s) \<rparr>
                        else s);
                  updatedQuestions = map (detach (sc_id scorecardForQuestion)) (questions s)
              in Inr (onChange p updatedQuestions (s1\<lparr> questions := updatedQuestions \<rparr>)))))"

text \<open>How many questions reference a scorecard id.\<close>

definition reference_count :: "scorecard_id \<Rightarrow> question list \<Rightarrow> nat" where
  "reference_count i qs =
     length (filter (\<lambda>q. case scorecardData (qconfig q) of
                            Some sc \<Rightarrow> sc_id sc = i
                          | None \<Rightarrow> False) qs)"

text \<open>\<^verbatim>\<open>isPublishedScorecard\<close>\<close>

definition isPublishedScorecard :: "scorecard \<Rightarrow> bool" where
  "isPublishedScorecard sc =
     (\<not> sc_new sc \<and> \<not> is_template sc \<and> (case sc_id sc of NumId _ \<Rightarrow> True | StrId _ \<Rightarrow> False))"

text \<open>
  A question whose scorecard has the empty string as its id. The editor never makes one:
  an id is a number of the backend or comes from \<^verbatim>\<open>crypto.randomUUID()\<close>
  (\<^verbatim>\<open>handleCreateNewScorecard\<close>, \<^verbatim>\<open>handleSelectScorecardTemplate\<close>).
\<close>

definition has_empty_scorecard_id :: "question \<Rightarrow> bool" where
  "has_empty_scorecard_id q =
     (case scorecardData (qconfig q) of
        Some sc \<Rightarrow> sc_id sc = StrId []
      | None \<Rightarrow> False)"

text \<open>The body of the \<^verbatim>\<open>map\<close> in \<^verbatim>\<open>syncLinkedScorecards\<close>. \<open>None\<close> is an argument left
  \<^verbatim>\<open>undefined\<close>.\<close>

definition syncQuestion ::
  "string \<Rightarrow> string option \<Rightarrow> criterion list option \<Rightarrow> question \<Rightarrow> question" where
  "syncQuestion sourceId newName newCriteria q =
     (case scorecardData (qconfig q) of
        Some sc \<Rightarrow>
          (case sc_id sc of
             StrId i \<Rightarrow>
               if i = sourceId then
                 q\<lparr> qconfig := (qconfig q)
                     \<lparr> scorecardData :=
                         Some (sc\<lparr> sc_name := (case newName of Some n \<Rightarrow> n
                                                 | None \<Rightarrow> sc_name sc),
                                   criteria := (case newCriteria of Some cs \<Rightarrow> cs
                                                | None \<Rightarrow> criteria sc) \<rparr>) \<rparr> \<rparr>
               else q
           | NumId _ \<Rightarrow> q)
      | None \<Rightarrow> q)"

definition syncLinkedScorecards ::
  "props \<Rightarrow> string \<Rightarrow> string option \<Rightarrow> criterion list option \<Rightarrow> editor_state
     \<Rightarrow> editor_state" where
  "syncLinkedScorecards p sourceId newName newCriteria s =
     (if sourceId = [] then s
      else
        (let updatedQuestions = map (syncQuestion sourceId newName newCriteria) (questions s)
         in onChange p updatedQuestions (s\<lparr> questions := updatedQuestions \<rparr>)))"

subsection \<open>Loading\<close>

text \<open>An optional string prop in a condition: \<^verbatim>\<open>undefined\<close> and the empty string are
  false.\<close>

definition truthy :: "string option \<Rightarrow> bool" where
  "truthy x = (case x of None \<Rightarrow> False | Some v \<Rightarrow> v \<noteq> [])"

text \<open>What a \<^verbatim>\<open>fetch\<close> followed by \<^verbatim>\<open>response.json()\<close> can come to: the request rejects,
  the response is not \<^verbatim>\<open>ok\<close>, the body is no JSON, or there is a value.\<close>

datatype 'a fetched = NetworkFailure | HttpNotOk | BadJson | Json 'a

record api_criterion =
  ac_name :: string
  ac_description :: string
  ac_max_score :: int
  ac_min_score :: int

text \<open>A scorecard of the backend. Without a \<^verbatim>\<open>criteria\<close> array, \<^verbatim>\<open>scorecard.criteria.map\<close>
  throws.\<close>

record api_scorecard =
  as_id :: int
  as_title :: string
  as_criteria :: "api_criterion list option"

datatype scorecards_json = NotAnArray | ScorecardArray "api_scorecard list"

record api_context =
  ctx_blocks :: "block list option"
  ctx_linkedMaterialIds :: "string list option"

record api_question =
  aq_id :: nat
  aq_type :: question_type
  aq_input_type :: "input_type option"
  aq_response_type :: response_type
  aq_blocks :: "block list option"
  aq_answer :: "block list option"
  aq_scorecard_id :: "int option"
  aq_context :: "api_context option"
  aq_coding_languages :: "string list option"

definition transformCriterion :: "api_criterion \<Rightarrow> criterion" where
  "transformCriterion c =
     \<lparr> cname = ac_name c, cdescription = ac_description c,
       minScore = ac_min_score c, maxScore = ac_max_score c \<rparr>"

text \<open>The \<^verbatim>\<open>data.map\<close> of \<^verbatim>\<open>fetchSchoolScorecards\<close>; \<open>Inl TypeError\<close> when one scorecard has
  no criteria.\<close>

fun transformScorecards :: "api_scorecard list \<Rightarrow> error + scorecard list" where
  "transformScorecards [] = Inr []"
| "transformScorecards (x # xs) =
     (case as_criteria x of
        None \<Rightarrow> Inl TypeError
      | Some cs \<Rightarrow>
          (case transformScorecards xs of
             Inl e \<Rightarrow> Inl e
           | Inr rest \<Rightarrow>
               Inr (\<lparr> sc_id = NumId (as_id x), sc_name = as_title x, sc_new = False,
                      is_template = False, criteria = map transformCriterion cs \<rparr> # rest)))"

text \<open>
  The \<^verbatim>\<open>data.questions.map\<close> of \<^verbatim>\<open>fetchQuestions\<close> for one question. The scorecards it
  searches come from \<open>transformScorecards\<close>, so their ids are the backend's integers, on
  which \<^verbatim>\<open>parseInt\<close> is the identity. A scorecard attached here has neither a \<^verbatim>\<open>new\<close> nor
  an \<^verbatim>\<open>is_template\<close> field, which reads as false.
\<close>

definition transformQuestion :: "scorecard list \<Rightarrow> api_question \<Rightarrow> question" where
  "transformQuestion availableScorecards question =
     \<lparr> qid = string_of_nat (aq_id question),
       qcontent = or_empty (aq_blocks question),
       qconfig =
         \<lparr> inputType = (case aq_input_type question of Some t \<Rightarrow> t | None \<Rightarrow> TextInput),
           responseType = aq_response_type question,
           questionType = aq_type question,
           correctAnswer =
             Some (case aq_answer question of
                     Some answer \<Rightarrow> answer
                   | None \<Rightarrow>
                       [Block ''paragraph'' None []
                          (Some [InlineObj ''text'' (Some []) []]) None []]),
           scorecardData =
             (case aq_scorecard_id question of
                None \<Rightarrow> None
              | Some scorecard_id \<Rightarrow>
                  if scorecard_id \<noteq> 0 \<and> length availableScorecards > 0 then
                    (case find (\<lambda>sc. sc_id sc = NumId scorecard_id) availableScorecards of
                       Some matchingScorecard \<Rightarrow>
                         Some \<lparr> sc_id = sc_id matchingScorecard,
                                sc_name = sc_name matchingScorecard,
                                sc_new = False, is_template = False,
                                criteria = criteria matchingScorecard \<rparr>
                     | None \<Rightarrow> None)
                  else None),
           knowledgeBaseBlocks =
             Some (case aq_context question of
                     Some ctx \<Rightarrow> or_empty (ctx_blocks ctx)
                   | None \<Rightarrow> []),
           linkedMaterialIds =
             Some (case aq_context question of
                     Some ctx \<Rightarrow> or_empty (ctx_linkedMaterialIds ctx)
                   | None \<Rightarrow> []),
           codingLanguages = Some (or_empty (aq_coding_languages question)) \<rparr> \<rparr>"

text \<open>
  \<^verbatim>\<open>fetchQuestions(availableScorecards)\<close> with the outcome of its request. The body of
  the task is \<open>None\<close> when it has no \<^verbatim>\<open>questions\<close> array. Everything that can fail is
  inside \<^verbatim>\<open>try\<close>; \<^verbatim>\<open>catch\<close> logs, and \<^verbatim>\<open>finally\<close> ends the loading state.
\<close>

definition fetchQuestions ::
  "props \<Rightarrow> api_question list option fetched \<Rightarrow> scorecard list \<Rightarrow> editor_state
     \<Rightarrow> editor_state" where
  "fetchQuestions p taskResponse availableScorecards s =
     (if truthy (taskId p) \<and> \<not> hasFetchedData s then
        (case taskResponse of
           Json data \<Rightarrow>
             (let s1 = (if length (or_empty data) > 0 then
                          (let updatedQuestions =
                                 map (transformQuestion availableScorecards) (or_empty data)
                           in onChange p updatedQuestions
                                (s\<lparr> questions := updatedQuestions,
                                     originalQuestions := updatedQuestions \<rparr>))
                        else s)
              in s1\<lparr> hasFetchedData := True, isLoadingQuestions := False \<rparr>)
         | _ \<Rightarrow>
             (emit (ConsoleError ''Error fetching quiz questions:'') s)
               \<lparr> hasFetchedData := True, isLoadingQuestions := False \<rparr>)
      else s\<lparr> isLoadingQuestions := False \<rparr>)"

text \<open>
  \<^verbatim>\<open>fetchSchoolScorecards\<close> with the outcomes of the two requests. The call of
  \<^verbatim>\<open>fetchQuestions\<close> sits inside the \<^verbatim>\<open>try\<close> block, after the scorecards have arrived:
  when the scorecard request fails, control goes to \<^verbatim>\<open>catch\<close> and \<^verbatim>\<open>fetchQuestions\<close> is
  not called.
\<close>

definition fetchSchoolScorecards ::
  "props \<Rightarrow> scorecards_json fetched \<Rightarrow> api_question list option fetched \<Rightarrow> editor_state
     \<Rightarrow> editor_state" where
  "fetchSchoolScorecards p scorecardResponse taskResponse s =
     (if truthy (schoolId p) then
        (let s0 = s\<lparr> isLoadingScorecards := True \<rparr>;
             failed = (emit (ConsoleError ''Error fetching school scorecards:'') s0)
                        \<lparr> isLoadingScorecards := False \<rparr>
         in case scorecardResponse of
              Json (ScorecardArray data) \<Rightarrow>
                (case transformScorecards data of
                   Inl e \<Rightarrow> failed
                 | Inr transformedScorecards \<Rightarrow>
                     (fetchQuestions p taskResponse transformedScorecards
                        (s0\<lparr> schoolScorecards := transformedScorecards \<rparr>))
                       \<lparr> isLoadingScorecards := False \<rparr>)
            | Json NotAnArray \<Rightarrow>
                (fetchQuestions p taskResponse [] s0)\<lparr> isLoadingScorecards := False \<rparr>
            | _ \<Rightarrow> failed)
      else fetchQuestions p taskResponse [] s)"

subsection \<open>Sample props and sessions\<close>

text \<open>Concrete inputs on which the theorems below are run.\<close>

definition demo_props :: props where
  "demo_props = \<lparr> status = Draft, isPreviewMode = False, taskId = Some ''7'',
                  schoolId = Some ''3'', onChange_given = True,
                  onValidationError_given = True, onQuestionChange_given = True \<rparr>"

definition demo_question :: "string \<Rightarrow> question_type \<Rightarrow> question" where
  "demo_question i t =
     \<lparr> qid = i,
       qcontent = [Block ''paragraph'' (Some ''b'') [] (Some [InlineStr ''What is 2 + 2?'']) None []],
       qconfig = defaultQuestionConfig\<lparr> questionType := t \<rparr> \<rparr>"

definition demo_state :: "question list \<Rightarrow> nat \<Rightarrow> tab \<Rightarrow> editor_state" where
  "demo_state qs i t =
     (initial_state Objective \<lparr> opt_value = ''python'', opt_label = ''Python'' \<rparr>)
       \<lparr> questions := qs, currentQuestionIndex := i, activeEditorTab := t,
         isLoadingQuestions := False \<rparr>"

definition demo_scorecard :: "scorecard_id \<Rightarrow> bool \<Rightarrow> scorecard" where
  "demo_scorecard i n =
     \<lparr> sc_id = i, sc_name = ''Rubric A'', sc_new = n, is_template = False,
       criteria = [\<lparr> cname = ''Clarity'', cdescription = ''Is the answer clear?'',
                     minScore = 1, maxScore = 5 \<rparr>] \<rparr>"

definition with_scorecard :: "scorecard \<Rightarrow> question \<Rightarrow> question" where
  "with_scorecard sc q = q\<lparr> qconfig := (qconfig q)\<lparr> scorecardData := Some sc \<rparr> \<rparr>"

definition lang :: "string \<Rightarrow> dropdown_option" where
  "lang v = \<lparr> opt_value = v, opt_label = v \<rparr>"

definition pristine_question :: "string \<Rightarrow> question_type \<Rightarrow> question" where
  "pristine_question i t =
     \<lparr> qid = i,
       qcontent = [Block ''paragraph'' None [] (Some [InlineObj ''text'' (Some ''Welcome'') []]) None []],
       qconfig = defaultQuestionConfig\<lparr> questionType := t \<rparr> \<rparr>"

definition answered :: "question \<Rightarrow> question" where
  "answered q =
     q\<lparr> qconfig := (qconfig q)
          \<lparr> correctAnswer :=
              Some [Block ''paragraph'' (Some ''a'') [] (Some [InlineStr ''4'']) None []] \<rparr> \<rparr>"

definition with_languages :: "string list \<Rightarrow> question \<Rightarrow> question" where
  "with_languages ls q = q\<lparr> qconfig := (qconfig q)\<lparr> codingLanguages := Some ls \<rparr> \<rparr>"

definition demo_api_question :: api_question where
  "demo_api_question =
     \<lparr> aq_id = 12, aq_type = Objective, aq_input_type = Some TextInput,
       aq_response_type = Chat,
       aq_blocks = Some [Block ''paragraph'' (Some ''b'') [] (Some [InlineStr ''What is 2 + 2?'']) None []],
       aq_answer = Some [Block ''paragraph'' (Some ''a'') [] (Some [InlineStr ''4'']) None []],
       aq_scorecard_id = None, aq_context = None, aq_coding_languages = None \<rparr>"

definition mounted :: editor_state where
  "mounted = initial_state Objective \<lparr> opt_value = ''javascript'', opt_label = ''JavaScript'' \<rparr>"

section \<open>Lemmas on text extraction\<close>

lemma trim_Nil: "trim [] = []"
  by (simp add: trim_def)

lemma trim_all_whitespace: "list_all js_whitespace s \<Longrightarrow> trim s = []"
  by (auto simp: trim_def list_all_iff dest: set_dropWhileD)

text \<open>After trimming, the first and the last character are no whitespace, so a second
  \<^verbatim>\<open>trim\<close> changes nothing.\<close>

lemma dropWhile_rev_dropWhile:
  "dropWhile P (rev (dropWhile P (rev (dropWhile P s)))) = rev (dropWhile P (rev (dropWhile P s)))"
proof (cases "dropWhile P (rev (dropWhile P s))")
  case Nil
  then show ?thesis by (simp only: rev.simps dropWhile.simps)
next
  case (Cons a as)
  let ?u = "dropWhile P s"
  let ?t = "dropWhile P (rev ?u)"
  have tne: "?t \<noteq> []" using Cons by simp
  have une: "?u \<noteq> []"
  proof
    assume "?u = []"
    then have "?t = []" by (simp only: rev.simps dropWhile.simps)
    with tne show False by blast
  qed
  then have hu: "\<not> P (hd ?u)" by (metis hd_dropWhile)
  have "\<exists>ys. rev ?u = ys @ ?t" by (metis takeWhile_dropWhile_id)
  then obtain ys where ys: "rev ?u = ys @ ?t" by blast
  then have "last ?t = last (rev ?u)" using tne by (metis last_appendR)
  then have "last ?t = hd ?u" using une by (simp add: last_rev)
  then have "\<not> P (hd (rev ?t))" using hu tne by (simp add: hd_rev)
  moreover have "rev ?t \<noteq> []" using tne by simp
  ultimately show ?thesis by (cases "rev ?t") auto
qed

lemma trim_idem: "trim (trim s) = trim s"
  unfolding trim_def by (simp add: dropWhile_rev_dropWhile)

lemma extractTextFromBlocks_Nil: "extractTextFromBlocks [] = []"
  by (simp add: extractTextFromBlocks_def)

lemma trim_extractTextFromBlocks: "trim (extractTextFromBlocks bs) = extractTextFromBlocks bs"
  by (simp add: extractTextFromBlocks_def trim_Nil trim_idem)

lemma block_text_media: "media_without_text b \<Longrightarrow> block_text b = []"
  by (auto simp: media_without_text_def is_media_def block_text_def)

lemma join_newline_blank:
  "\<forall>x\<in>set xs. x = [] \<Longrightarrow> list_all js_whitespace (join [CHR 0x0A] xs)"
  by (induction "[CHR 0x0A]" xs rule: join.induct) (auto simp: js_whitespace_def)

lemma extractTextFromBlocks_media_only:
  assumes "list_all media_without_text bs"
  shows "extractTextFromBlocks bs = []"
proof -
  have "\<forall>x\<in>set (map block_text bs). x = []"
    using assms by (auto simp: list_all_iff block_text_media)
  then have "list_all js_whitespace (join [CHR 0x0A] (map block_text bs))"
    by (rule join_newline_blank)
  then show ?thesis
    by (simp add: extractTextFromBlocks_def trim_all_whitespace)
qed

section \<open>The knowledge-base payload\<close>

text \<open>
  C10. \<^verbatim>\<open>getKnowledgeBaseContent\<close>, which save and publish call for the \<^verbatim>\<open>context\<close> field,
  returns \<^verbatim>\<open>null\<close> exactly when the knowledge-base blocks have no extractable text and
  the list of linked material ids is empty. Otherwise the payload's blocks are the
  original blocks when their extracted text is non-blank and \<open>[]\<close> when it is blank, and
  its ids are the original ids when there are some and \<open>[]\<close> when there are none. In
  particular, blocks that are all image, audio or video blocks without text never reach
  the payload.
\<close>

theorem getKnowledgeBaseContent_payload:
  "getKnowledgeBaseContent cfg =
     (if extractTextFromBlocks (or_empty (knowledgeBaseBlocks cfg)) = []
         \<and> or_empty (linkedMaterialIds cfg) = []
      then None
      else Some \<lparr> kb_blocks =
                    (if extractTextFromBlocks (or_empty (knowledgeBaseBlocks cfg)) \<noteq> []
                     then or_empty (knowledgeBaseBlocks cfg) else []),
                  kb_linkedMaterialIds =
                    (if or_empty (linkedMaterialIds cfg) \<noteq> []
                     then or_empty (linkedMaterialIds cfg) else []) \<rparr>)
   \<and> (list_all media_without_text (or_empty (knowledgeBaseBlocks cfg)) \<longrightarrow>
        (case getKnowledgeBaseContent cfg of
           None \<Rightarrow> or_empty (linkedMaterialIds cfg) = []
         | Some payload \<Rightarrow> kb_blocks payload = []))"
proof -
  let ?kb = "or_empty (knowledgeBaseBlocks cfg)"
  have nonempty: "(0 < length ?kb \<and> 0 < length (trim (extractTextFromBlocks ?kb)))
        = (extractTextFromBlocks ?kb \<noteq> [])"
    by (auto simp: trim_extractTextFromBlocks extractTextFromBlocks_Nil)
  have first: "getKnowledgeBaseContent cfg =
     (if extractTextFromBlocks ?kb = [] \<and> or_empty (linkedMaterialIds cfg) = []
      then None
      else Some \<lparr> kb_blocks = (if extractTextFromBlocks ?kb \<noteq> [] then ?kb else []),
                  kb_linkedMaterialIds =
                    (if or_empty (linkedMaterialIds cfg) \<noteq> []
                     then or_empty (linkedMaterialIds cfg) else []) \<rparr>)"
    unfolding getKnowledgeBaseContent_def Let_def nonempty by simp
  have second: "list_all media_without_text ?kb \<longrightarrow>
        (case getKnowledgeBaseContent cfg of
           None \<Rightarrow> or_empty (linkedMaterialIds cfg) = []
         | Some payload \<Rightarrow> kb_blocks payload = [])"
    unfolding first by (simp add: extractTextFromBlocks_media_only)
  from first second show ?thesis by blast
qed

theorem getKnowledgeBaseContent_payload_witness:
  "list_all media_without_text
     [Block ''image'' (Some ''b1'') [] None None [], Block ''video'' None [] None (Some []) []]
   \<and> getKnowledgeBaseContent
       (defaultQuestionConfig
          \<lparr> knowledgeBaseBlocks :=
              Some [Block ''image'' (Some ''b1'') [] None None [],
                    Block ''video'' None [] None (Some []) []],
            linkedMaterialIds := Some [''42''] \<rparr>)
     = Some \<lparr> kb_blocks = [], kb_linkedMaterialIds = [''42''] \<rparr>"
  using getKnowledgeBaseContent_payload
    [of "defaultQuestionConfig
          \<lparr> knowledgeBaseBlocks :=
              Some [Block ''image'' (Some ''b1'') [] None None [],
                    Block ''video'' None [] None (Some []) []],
            linkedMaterialIds := Some [''42''] \<rparr>"]
  by (simp add: or_empty_def media_without_text_def is_media_def defaultQuestionConfig_def
      extractTextFromBlocks_def block_text_def trim_def js_whitespace_def)

section \<open>Validation before publishing\<close>

text \<open>The checks of the code are the checks of the specification.\<close>

lemma blank_extract: "blank (extractTextFromBlocks bs) = (extractTextFromBlocks bs = [])"
  by (simp add: blank_def trim_extractTextFromBlocks)

lemma validateQuestionContent_spec:
  "validateQuestionContent content = spec_content_nonempty content"
  by (cases content)
     (auto simp: validateQuestionContent_def spec_content_nonempty_def blank_extract
        trim_extractTextFromBlocks extractTextFromBlocks_Nil blank_def)

lemma validateCorrectAnswer_spec: "validateCorrectAnswer cfg = spec_has_answer cfg"
  by (auto simp: validateCorrectAnswer_def spec_has_answer_def blank_extract
        trim_extractTextFromBlocks extractTextFromBlocks_Nil split: option.splits)

lemma criteriaLoop_spec:
  "spec_first_blank i cs = map_option (\<lambda>(j, f). BlankCriterion j f) (criteriaLoop i cs)"
  by (induction cs arbitrary: i) auto

lemma validateScorecardCriteria_result:
  "validateScorecardCriteria p (Some sc) qi s = (ok, s') \<Longrightarrow>
   questions s' = questions s \<and> currentQuestionIndex s' = currentQuestionIndex s
   \<and> (if sc_new sc \<and> spec_first_blank 0 (criteria sc) \<noteq> None
       then \<not> ok \<and> activeEditorTab s' = ScorecardTab
       else ok \<and> activeEditorTab s' = activeEditorTab s)"
  by (auto simp: validateScorecardCriteria_def criteriaLoop_spec onValidationError_def emit_def
      split: option.splits if_splits prod.splits)

lemma validateQuestionAt_spec:
  assumes "validateQuestionAt p i q s = (ok, s')"
  shows "questions s' = questions s
     \<and> (case spec_check_question q of
          None \<Rightarrow> ok \<and> activeEditorTab s' = activeEditorTab s
        | Some f \<Rightarrow>
            \<not> ok \<and> currentQuestionIndex s' = i
            \<and> activeEditorTab s' =
                (case required_tab f of Some t \<Rightarrow> t | None \<Rightarrow> activeEditorTab s))"
proof (cases "questionType (qconfig q) = Subjective \<and> spec_content_nonempty (qcontent q)
              \<and> validateScorecard (qconfig q)")
  case True
  then obtain sc where sc: "scorecardData (qconfig q) = Some sc" and ne: "criteria sc \<noteq> []"
    by (auto simp: validateScorecard_def split: option.splits)
  from True sc assms
  have v: "validateScorecardCriteria p (Some sc) (Some i) (s\<lparr> currentQuestionIndex := i \<rparr>) = (ok, s')"
    by (simp add: validateQuestionAt_def validateQuestionContent_spec)
  have chk: "spec_check_question q = (if sc_new sc then spec_first_blank 0 (criteria sc) else None)"
    using True sc ne by (simp add: spec_check_question_def)
  have fb: "spec_first_blank 0 (criteria sc) = Some f \<Longrightarrow> required_tab f = Some ScorecardTab" for f
    by (auto simp: criteriaLoop_spec)
  from validateScorecardCriteria_result [OF v] show ?thesis
    unfolding chk by (auto split: option.splits if_splits dest: fb)
next
  case False
  show ?thesis
  proof (cases "spec_content_nonempty (qcontent q)")
    case empty: False
    with assms show ?thesis
      by (auto simp: validateQuestionAt_def validateQuestionContent_spec spec_check_question_def
            onValidationError_def emit_def highlightField_def split: if_splits)
  next
    case nonempty: True
    show ?thesis
    proof (cases "questionType (qconfig q)")
      case Objective
      with assms nonempty show ?thesis
        by (auto simp: validateQuestionAt_def validateQuestionContent_spec
              validateCorrectAnswer_spec spec_check_question_def
              onValidationError_def emit_def highlightField_def split: if_splits)
    next
      case Coding
      with assms nonempty show ?thesis
        by (auto simp: validateQuestionAt_def validateQuestionContent_spec
              validateCorrectAnswer_spec spec_check_question_def
              onValidationError_def emit_def highlightField_def split: if_splits)
    next
      case Subjective
      with False nonempty have nv: "\<not> validateScorecard (qconfig q)" by simp
      then have "spec_check_question q = Some NoScorecard"
        using Subjective nonempty
        by (auto simp: spec_check_question_def validateScorecard_def split: option.splits)
      with assms nonempty Subjective nv show ?thesis
        by (auto simp: validateQuestionAt_def validateQuestionContent_spec
              onValidationError_def emit_def split: if_splits)
    qed
  qed
qed

lemma spec_first_failure_None:
  "spec_first_failure i qs = None \<longleftrightarrow> (\<forall>j < length qs. spec_check_question (qs ! j) = None)"
proof (induction qs arbitrary: i)
  case Nil
  then show ?case by simp
next
  case (Cons q qs)
  show ?case
    by (auto simp: Cons less_Suc_eq_0_disj split: option.splits)
qed

lemma spec_first_failure_Some:
  "spec_first_failure i qs = Some (k, f) \<Longrightarrow>
   i \<le> k \<and> k - i < length qs \<and> spec_check_question (qs ! (k - i)) = Some f
   \<and> (\<forall>j < k - i. spec_check_question (qs ! j) = None)"
proof (induction qs arbitrary: i)
  case Nil
  then show ?case by simp
next
  case (Cons q qs)
  show ?case
  proof (cases "spec_check_question q")
    case None
    with Cons.prems have rec: "spec_first_failure (Suc i) qs = Some (k, f)" by simp
    from Cons.IH [OF rec] have ih: "Suc i \<le> k" "k - Suc i < length qs"
      "spec_check_question (qs ! (k - Suc i)) = Some f"
      "\<forall>j < k - Suc i. spec_check_question (qs ! j) = None" by auto
    from ih(1) have e: "k - i = Suc (k - Suc i)" by arith
    show ?thesis
      using ih None unfolding e
      by (auto simp: less_Suc_eq_0_disj)
  next
    case (Some g)
    with Cons.prems show ?thesis by auto
  qed
qed

lemma validateLoop_spec:
  "validateLoop p i qs s = (ok, s') \<Longrightarrow>
   questions s' = questions s
   \<and> (case spec_first_failure i qs of
        None \<Rightarrow> ok \<and> activeEditorTab s' = activeEditorTab s
      | Some (k, f) \<Rightarrow>
          \<not> ok \<and> currentQuestionIndex s' = k
          \<and> activeEditorTab s' =
              (case required_tab f of Some t \<Rightarrow> t | None \<Rightarrow> activeEditorTab s))"
proof (induction qs arbitrary: i s)
  case Nil
  then show ?case by auto
next
  case (Cons q qs)
  obtain ok1 s1 where one: "validateQuestionAt p i q s = (ok1, s1)"
    by (cases "validateQuestionAt p i q s")
  note q = validateQuestionAt_spec [OF one]
  show ?case
  proof (cases "spec_check_question q")
    case None
    with q have ok1: ok1 and t1: "activeEditorTab s1 = activeEditorTab s"
      and q1: "questions s1 = questions s" by auto
    from Cons.prems one ok1 have "validateLoop p (Suc i) qs s1 = (ok, s')" by simp
    from Cons.IH [OF this] show ?thesis
      using None t1 q1 by (auto split: option.splits)
  next
    case (Some f)
    with q have "\<not> ok1" by auto
    with Cons.prems one have "ok = False" "s' = s1" by auto
    with q Some show ?thesis by auto
  qed
qed

text \<open>
  C1. \<^verbatim>\<open>validateAllQuestions\<close> (\<^verbatim>\<open>validateBeforePublish\<close>) never changes the questions and
  decides in sequence order, the first failure winning. On an empty sequence it fails
  and points at no question: index and tab stay. Otherwise it returns true exactly when
  no question fails a check; and when some question does, it returns false, the current
  index is the first question that fails a check, every question before it passes, and
  the active tab is the tab of that question's first failed check in the order content,
  coding languages, correct answer, scorecard present with a criterion, and, for a
  scorecard marked new only, criteria with non-blank name and description: the question
  tab for empty content, the answer tab for a missing answer, the scorecard tab for a
  missing scorecard or a blank criterion field (for missing coding languages the tab is
  left as it is).
\<close>

theorem validateAllQuestions_first_failure:
  "case validateAllQuestions p s of
     (ok, s') \<Rightarrow>
       questions s' = questions s
       \<and> (case spec_validate (questions s) of
            None \<Rightarrow>
              ok \<and> questions s \<noteq> []
              \<and> (\<forall>j < length (questions s). spec_check_question (questions s ! j) = None)
          | Some (None, f) \<Rightarrow>
              \<not> ok \<and> questions s = [] \<and> f = NoQuestions
              \<and> currentQuestionIndex s' = currentQuestionIndex s
              \<and> activeEditorTab s' = activeEditorTab s
          | Some (Some i, f) \<Rightarrow>
              \<not> ok \<and> i < length (questions s)
              \<and> spec_check_question (questions s ! i) = Some f
              \<and> (\<forall>j < i. spec_check_question (questions s ! j) = None)
              \<and> currentQuestionIndex s' = i
              \<and> activeEditorTab s' =
                  (case required_tab f of Some t \<Rightarrow> t | None \<Rightarrow> activeEditorTab s))"
proof (cases "questions s = []")
  case True
  then show ?thesis
    by (simp add: validateAllQuestions_def spec_validate_def onValidationError_def emit_def)
next
  case False
  obtain ok s' where r: "validateLoop p 0 (questions s) s = (ok, s')"
    by (cases "validateLoop p 0 (questions s) s")
  note l = validateLoop_spec [OF r]
  have v: "validateAllQuestions p s = (ok, s')"
    using False r by (simp add: validateAllQuestions_def)
  show ?thesis
  proof (cases "spec_first_failure 0 (questions s)")
    case None
    with l False spec_first_failure_None [of 0 "questions s"] show ?thesis
      unfolding v by (simp add: spec_validate_def)
  next
    case (Some kf)
    obtain k f where kf: "kf = (k, f)" by (cases kf)
    from spec_first_failure_Some [of 0 "questions s" k f] Some kf
    have "k < length (questions s)" "spec_check_question (questions s ! k) = Some f"
      "\<forall>j < k. spec_check_question (questions s ! j) = None" by auto
    with l False Some kf show ?thesis
      unfolding v by (simp add: spec_validate_def)
  qed
qed

lemmas demo_defs =
  demo_state_def demo_props_def demo_question_def answered_def with_languages_def
  demo_scorecard_def with_scorecard_def initial_state_def defaultQuestionConfig_def

lemmas validate_defs =
  validateAllQuestions_def validateQuestionAt_def validateQuestionContent_def
  validateCorrectAnswer_def validateScorecard_def validateScorecardCriteria_def
  extractTextFromBlocks_def block_text_def content_text_def inline_text_def trim_def
  js_whitespace_def blank_def or_empty_def onValidationError_def emit_def highlightField_def

theorem validateAllQuestions_first_failure_witness:
  "(case validateAllQuestions demo_props
           (demo_state [demo_question ''1'' Subjective] 0 QuestionTab) of
      (ok, s') \<Rightarrow> \<not> ok \<and> currentQuestionIndex s' = 0 \<and> activeEditorTab s' = ScorecardTab)
   \<and> (case validateAllQuestions demo_props
           (demo_state [answered (demo_question ''1'' Objective),
                        with_languages [''python''] (demo_question ''2'' Coding)] 0 QuestionTab) of
      (ok, s') \<Rightarrow> \<not> ok \<and> currentQuestionIndex s' = 1 \<and> activeEditorTab s' = AnswerTab)
   \<and> (case validateAllQuestions demo_props
           (demo_state [answered (demo_question ''1'' Objective),
                        with_scorecard (demo_scorecard (NumId 7) False)
                          (demo_question ''2'' Subjective)] 0 QuestionTab) of
      (ok, s') \<Rightarrow> ok)"
  using validateAllQuestions_first_failure
          [where p = demo_props and s = "demo_state [demo_question ''1'' Subjective] 0 QuestionTab"]
        validateAllQuestions_first_failure
          [where p = demo_props and s =
              "demo_state [answered (demo_question ''1'' Objective),
                           with_languages [''python''] (demo_question ''2'' Coding)] 0 QuestionTab"]
        validateAllQuestions_first_failure
          [where p = demo_props and s =
              "demo_state [answered (demo_question ''1'' Objective),
                           with_scorecard (demo_scorecard (NumId 7) False)
                             (demo_question ''2'' Subjective)] 0 QuestionTab"]
  by (simp add: demo_defs validate_defs)

section \<open>Validation that succeeds\<close>

text \<open>When validation succeeds, the state is the old one but for the current index.\<close>

lemma validateScorecardCriteria_success:
  "validateScorecardCriteria p sc qi s = (True, s') \<Longrightarrow> s' = s"
  by (auto simp: validateScorecardCriteria_def split: option.splits if_splits prod.splits)

lemma validateQuestionAt_success:
  "validateQuestionAt p i q s = (True, s') \<Longrightarrow>
   s' = s \<or> s' = s\<lparr> currentQuestionIndex := i \<rparr>"
  by (auto simp: validateQuestionAt_def split: if_splits option.splits
      dest: validateScorecardCriteria_success)

lemma validateLoop_success:
  "validateLoop p i qs s = (True, s') \<Longrightarrow> \<exists>k. s' = s\<lparr> currentQuestionIndex := k \<rparr>"
proof (induction qs arbitrary: i s)
  case Nil
  then have "s' = s\<lparr> currentQuestionIndex := currentQuestionIndex s \<rparr>" by simp
  then show ?case ..
next
  case (Cons q qs)
  obtain ok1 s1 where one: "validateQuestionAt p i q s = (ok1, s1)"
    by (cases "validateQuestionAt p i q s")
  with Cons.prems have ok1: ok1 and rest: "validateLoop p (Suc i) qs s1 = (True, s')"
    by (auto split: if_splits)
  from one ok1 validateQuestionAt_success [of p i q s s1]
  have d: "s1 = s \<or> s1 = s\<lparr> currentQuestionIndex := i \<rparr>" by simp
  from Cons.IH [OF rest] obtain k where k: "s' = s1\<lparr> currentQuestionIndex := k \<rparr>" ..
  from d show ?case
  proof
    assume "s1 = s"
    with k show ?thesis by blast
  next
    assume "s1 = s\<lparr> currentQuestionIndex := i \<rparr>"
    with k have "s' = s\<lparr> currentQuestionIndex := k \<rparr>" by simp
    then show ?thesis ..
  qed
qed

lemma validateAllQuestions_success_frame:
  "validateAllQuestions p s = (True, s') \<Longrightarrow> \<exists>k. s' = s\<lparr> currentQuestionIndex := k \<rparr>"
  by (auto simp: validateAllQuestions_def split: if_splits dest: validateLoop_success)

text \<open>
  C2 fails on the code. For a subjective question with a scorecard, \<^verbatim>\<open>validateAllQuestions\<close>
  calls \<^verbatim>\<open>setCurrentQuestionIndex(i)\<close> before it has looked at the criteria, under the
  comment ``Navigate to the question with the problematic scorecard first''. In a session
  whose two questions are both valid, with the second one current, the call returns true
  and the first question, the subjective one, has become current.
\<close>

theorem validateAllQuestions_success_moves_index:
  "currentQuestionIndex
     (demo_state [with_scorecard (demo_scorecard (NumId 7) False) (demo_question ''1'' Subjective),
                  answered (demo_question ''2'' Objective)] 1 AnswerTab) = 1
   \<and> validateAllQuestions demo_props
       (demo_state [with_scorecard (demo_scorecard (NumId 7) False) (demo_question ''1'' Subjective),
                    answered (demo_question ''2'' Objective)] 1 AnswerTab)
     = (True,
        (demo_state [with_scorecard (demo_scorecard (NumId 7) False) (demo_question ''1'' Subjective),
                     answered (demo_question ''2'' Objective)] 1 AnswerTab)
          \<lparr> currentQuestionIndex := 0 \<rparr>)"
  by (simp add: demo_defs validate_defs)

section \<open>Navigation\<close>

text \<open>What the two handlers do to index, questions and tab, for any active tab: the tab
  changes only when the index does.\<close>

lemma goToNextQuestion_cases:
  assumes "currentQuestionIndex s < length (questions s)"
  shows
   "currentQuestionIndex (goToNextQuestion p s)
      = min (currentQuestionIndex s + 1) (length (questions s) - 1)
    \<and> questions (goToNextQuestion p s) = questions s
    \<and> activeEditorTab (goToNextQuestion p s) =
        (if currentQuestionIndex (goToNextQuestion p s) \<noteq> currentQuestionIndex s
            \<and> \<not> spec_tab_valid (activeEditorTab s)
                  (questionType (qconfig
                     (questions s ! currentQuestionIndex (goToNextQuestion p s))))
         then QuestionTab else activeEditorTab s)"
proof -
  have n1: "currentQuestionIndex (goToNextQuestion p s)
      = min (currentQuestionIndex s + 1) (length (questions s) - 1)"
    using assms by (auto simp: goToNextQuestion_def Let_def emit_def min_def)
  have n2: "questions (goToNextQuestion p s) = questions s"
    by (auto simp: goToNextQuestion_def Let_def emit_def)
  have n3: "activeEditorTab (goToNextQuestion p s) =
        (if currentQuestionIndex (goToNextQuestion p s) \<noteq> currentQuestionIndex s
            \<and> \<not> spec_tab_valid (activeEditorTab s)
                  (questionType (qconfig
                     (questions s ! currentQuestionIndex (goToNextQuestion p s))))
         then QuestionTab else activeEditorTab s)"
    by (cases "activeEditorTab s";
        cases "questionType (qconfig (questions s ! (currentQuestionIndex s + 1)))")
       (auto simp: goToNextQuestion_def Let_def emit_def)
  from n1 n2 n3 show ?thesis by blast
qed

lemma goToPreviousQuestion_cases:
  assumes "currentQuestionIndex s < length (questions s)"
  shows
   "\<exists>s'. goToPreviousQuestion p s = Inr s'
      \<and> currentQuestionIndex s' = currentQuestionIndex s - 1
      \<and> questions s' = questions s
      \<and> activeEditorTab s' =
          (if currentQuestionIndex s' \<noteq> currentQuestionIndex s
              \<and> \<not> spec_tab_valid (activeEditorTab s)
                    (questionType (qconfig (questions s ! currentQuestionIndex s')))
           then QuestionTab else activeEditorTab s)"
  using assms
  by (cases "activeEditorTab s";
      cases "questionType (qconfig (questions s ! (currentQuestionIndex s - 1)))")
     (auto simp: goToPreviousQuestion_def Let_def emit_def)

text \<open>
  C6. In a session with a non-empty question sequence, a current index that points into
  it and an active tab that is valid for the current question, \<^verbatim>\<open>goToNextQuestion\<close> moves
  the index by one up to \<open>length - 1\<close> and \<^verbatim>\<open>goToPreviousQuestion\<close> by one down to \<open>0\<close>,
  without wraparound and without touching the questions, and the active tab becomes the
  question tab exactly when the previous tab is not valid for the type of the
  destination question (scorecard on a non-subjective one, answer on a subjective one);
  otherwise, and so for the knowledge tab on every type, the tab is kept. Whenever the
  index moves, the same holds of the tab whatever it was before.
\<close>

theorem navigate_clamped_tab_reset:
  assumes "questions s \<noteq> []"
    and "currentQuestionIndex s < length (questions s)"
  shows
   "currentQuestionIndex (goToNextQuestion p s)
      = min (currentQuestionIndex s + 1) (length (questions s) - 1)
    \<and> currentQuestionIndex (goToNextQuestion p s) < length (questions s)
    \<and> questions (goToNextQuestion p s) = questions s
    \<and> (currentQuestionIndex (goToNextQuestion p s) \<noteq> currentQuestionIndex s
        \<or> spec_tab_valid (activeEditorTab s)
             (questionType (qconfig (questions s ! currentQuestionIndex s)))
        \<longrightarrow>
        activeEditorTab (goToNextQuestion p s) =
          (if \<not> spec_tab_valid (activeEditorTab s)
                  (questionType (qconfig
                     (questions s ! currentQuestionIndex (goToNextQuestion p s))))
           then QuestionTab else activeEditorTab s))
    \<and> (case goToPreviousQuestion p s of
          Inl e \<Rightarrow> False
        | Inr s' \<Rightarrow>
            int (currentQuestionIndex s') = max 0 (int (currentQuestionIndex s) - 1)
            \<and> currentQuestionIndex s' < length (questions s)
            \<and> questions s' = questions s
            \<and> (currentQuestionIndex s' \<noteq> currentQuestionIndex s
                \<or> spec_tab_valid (activeEditorTab s)
                     (questionType (qconfig (questions s ! currentQuestionIndex s)))
                \<longrightarrow>
                activeEditorTab s' =
                  (if \<not> spec_tab_valid (activeEditorTab s)
                          (questionType (qconfig (questions s ! currentQuestionIndex s')))
                   then QuestionTab else activeEditorTab s)))"
proof -
  note n = goToNextQuestion_cases [OF assms(2), of p]
  from goToPreviousQuestion_cases [OF assms(2), of p]
  obtain s' where r: "goToPreviousQuestion p s = Inr s'"
    and i: "currentQuestionIndex s' = currentQuestionIndex s - 1"
    and q: "questions s' = questions s"
    and t: "activeEditorTab s' =
          (if currentQuestionIndex s' \<noteq> currentQuestionIndex s
              \<and> \<not> spec_tab_valid (activeEditorTab s)
                    (questionType (qconfig (questions s ! currentQuestionIndex s')))
           then QuestionTab else activeEditorTab s)"
    by blast
  have next_part:
    "currentQuestionIndex (goToNextQuestion p s)
      = min (currentQuestionIndex s + 1) (length (questions s) - 1)
    \<and> currentQuestionIndex (goToNextQuestion p s) < length (questions s)
    \<and> questions (goToNextQuestion p s) = questions s
    \<and> (currentQuestionIndex (goToNextQuestion p s) \<noteq> currentQuestionIndex s
        \<or> spec_tab_valid (activeEditorTab s)
             (questionType (qconfig (questions s ! currentQuestionIndex s)))
        \<longrightarrow>
        activeEditorTab (goToNextQuestion p s) =
          (if \<not> spec_tab_valid (activeEditorTab s)
                  (questionType (qconfig
                     (questions s ! currentQuestionIndex (goToNextQuestion p s))))
           then QuestionTab else activeEditorTab s))"
    using n assms(2) by (auto simp: min_def)
  have prev_part:
    "int (currentQuestionIndex s') = max 0 (int (currentQuestionIndex s) - 1)
     \<and> currentQuestionIndex s' < length (questions s)
     \<and> questions s' = questions s
     \<and> (currentQuestionIndex s' \<noteq> currentQuestionIndex s
         \<or> spec_tab_valid (activeEditorTab s)
              (questionType (qconfig (questions s ! currentQuestionIndex s)))
         \<longrightarrow>
         activeEditorTab s' =
           (if \<not> spec_tab_valid (activeEditorTab s)
                   (questionType (qconfig (questions s ! currentQuestionIndex s')))
            then QuestionTab else activeEditorTab s))"
    using i q t assms(2) by (auto simp: max_def)
  from next_part prev_part r show ?thesis by simp
qed

theorem navigate_clamped_tab_reset_witness:
  "currentQuestionIndex
     (goToNextQuestion demo_props
        (demo_state [demo_question ''1'' Subjective, demo_question ''2'' Coding] 0 ScorecardTab)) = 1
   \<and> activeEditorTab
     (goToNextQuestion demo_props
        (demo_state [demo_question ''1'' Subjective, demo_question ''2'' Coding] 0 ScorecardTab))
       = QuestionTab
   \<and> activeEditorTab
     (goToNextQuestion demo_props
        (demo_state [demo_question ''1'' Subjective, demo_question ''2'' Coding] 0 KnowledgeTab))
       = KnowledgeTab
   \<and> (case goToPreviousQuestion demo_props
         (demo_state [demo_question ''1'' Subjective, demo_question ''2'' Coding] 1 AnswerTab) of
         Inl e \<Rightarrow> False
       | Inr s' \<Rightarrow> currentQuestionIndex s' = 0 \<and> activeEditorTab s' = QuestionTab)
   \<and> (case goToPreviousQuestion demo_props
         (demo_state [demo_question ''1'' Subjective, demo_question ''2'' Coding] 0 ScorecardTab) of
         Inl e \<Rightarrow> False
       | Inr s' \<Rightarrow> currentQuestionIndex s' = 0 \<and> activeEditorTab s' = ScorecardTab)"
  using navigate_clamped_tab_reset
          [of "demo_state [demo_question ''1'' Subjective, demo_question ''2'' Coding] 0 ScorecardTab"
              demo_props]
        navigate_clamped_tab_reset
          [of "demo_state [demo_question ''1'' Subjective, demo_question ''2'' Coding] 0 KnowledgeTab"
              demo_props]
        navigate_clamped_tab_reset
          [of "demo_state [demo_question ''1'' Subjective, demo_question ''2'' Coding] 1 AnswerTab"
              demo_props]
  by (simp add: demo_state_def demo_question_def initial_state_def defaultQuestionConfig_def
      split: sum.splits)

section \<open>Deleting a question\<close>

text \<open>
  C7. \<^verbatim>\<open>deleteQuestion\<close> on a session with one question empties the sequence. On a session
  with more than one question it sets the current index to the minimum of the old index
  and the new length minus one, which is a valid index of the resulting sequence, and,
  the old index being valid, the resulting sequence is the old one without the question
  at that index.
\<close>

theorem deleteQuestion_clamps:
  "(length (questions s) = 1 \<longrightarrow> questions (deleteQuestion p s) = [])
   \<and> (1 < length (questions s) \<longrightarrow>
        currentQuestionIndex (deleteQuestion p s)
          = min (currentQuestionIndex s) (length (questions (deleteQuestion p s)) - 1)
        \<and> currentQuestionIndex (deleteQuestion p s) < length (questions (deleteQuestion p s)))
   \<and> (1 < length (questions s) \<and> currentQuestionIndex s < length (questions s) \<longrightarrow>
        questions (deleteQuestion p s)
          = take (currentQuestionIndex s) (questions s)
            @ drop (Suc (currentQuestionIndex s)) (questions s)
        \<and> length (questions (deleteQuestion p s)) = length (questions s) - 1)"
  by (auto simp: deleteQuestion_def onChange_def emit_def splice1_def Let_def min_def)

theorem deleteQuestion_clamps_witness:
  "questions (deleteQuestion demo_props (demo_state [demo_question ''1'' Objective] 0 QuestionTab)) = []
   \<and> questions (deleteQuestion demo_props
        (demo_state [demo_question ''1'' Objective, demo_question ''2'' Coding,
                     demo_question ''3'' Subjective] 2 QuestionTab))
       = [demo_question ''1'' Objective, demo_question ''2'' Coding]
   \<and> currentQuestionIndex (deleteQuestion demo_props
        (demo_state [demo_question ''1'' Objective, demo_question ''2'' Coding,
                     demo_question ''3'' Subjective] 2 QuestionTab)) = 1"
  using deleteQuestion_clamps
          [of "demo_state [demo_question ''1'' Objective] 0 QuestionTab" demo_props]
        deleteQuestion_clamps
          [of "demo_state [demo_question ''1'' Objective, demo_question ''2'' Coding,
                     demo_question ''3'' Subjective] 2 QuestionTab" demo_props]
  by (simp add: demo_state_def initial_state_def)

section \<open>Scorecards\<close>

text \<open>What \<^verbatim>\<open>syncLinkedScorecards\<close> does for the empty and for a non-empty source id:
  the guard \<^verbatim>\<open>if (!sourceId) return\<close> makes the empty one change nothing.\<close>

lemma syncLinkedScorecards_cases:
  "(sourceId = [] \<longrightarrow> syncLinkedScorecards p sourceId newName newCriteria s = s)
   \<and> (sourceId \<noteq> [] \<longrightarrow>
        length (questions (syncLinkedScorecards p sourceId newName newCriteria s))
          = length (questions s)
        \<and> (\<forall>i < length (questions s).
             questions (syncLinkedScorecards p sourceId newName newCriteria s) ! i =
               (case scorecardData (qconfig (questions s ! i)) of
                  None \<Rightarrow> questions s ! i
                | Some sc \<Rightarrow>
                    if sc_id sc = StrId sourceId then
                      (questions s ! i)
                        \<lparr> qconfig := (qconfig (questions s ! i))
                            \<lparr> scorecardData :=
                                Some (sc\<lparr> sc_name := (case newName of Some n \<Rightarrow> n
                                                        | None \<Rightarrow> sc_name sc),
                                          criteria := (case newCriteria of Some cs \<Rightarrow> cs
                                                       | None \<Rightarrow> criteria sc) \<rparr>) \<rparr> \<rparr>
                    else questions s ! i)))"
  by (auto simp: syncLinkedScorecards_def onChange_def emit_def syncQuestion_def Let_def
      split: option.splits scorecard_id.splits)

text \<open>
  C5. In a session where no scorecard has the empty string as its id, for every source
  id, name and criteria (either of the two may be left out, which keeps the old value),
  \<^verbatim>\<open>syncLinkedScorecards\<close> replaces the scorecard name and criteria of exactly the
  questions whose scorecard has a string id equal to the source id, keeps every other
  field of those questions, and leaves every other question as it is; a question whose
  scorecard id is a number is never modified.
\<close>

theorem syncLinkedScorecards_frame:
  assumes "\<not> list_ex has_empty_scorecard_id (questions s)"
  shows
   "length (questions (syncLinkedScorecards p sourceId newName newCriteria s))
      = length (questions s)
    \<and> (\<forall>i < length (questions s).
         questions (syncLinkedScorecards p sourceId newName newCriteria s) ! i =
           (case scorecardData (qconfig (questions s ! i)) of
              None \<Rightarrow> questions s ! i
            | Some sc \<Rightarrow>
                (case sc_id sc of
                   NumId n \<Rightarrow> questions s ! i
                 | StrId x \<Rightarrow>
                     if x = sourceId then
                       (questions s ! i)
                         \<lparr> qconfig := (qconfig (questions s ! i))
                             \<lparr> scorecardData :=
                                 Some (sc\<lparr> sc_name := (case newName of Some n \<Rightarrow> n
                                                         | None \<Rightarrow> sc_name sc),
                                           criteria := (case newCriteria of Some cs \<Rightarrow> cs
                                                        | None \<Rightarrow> criteria sc) \<rparr>) \<rparr> \<rparr>
                     else questions s ! i)))"
proof (cases "sourceId = []")
  case True
  have same: "syncLinkedScorecards p sourceId newName newCriteria s = s"
    using True by (simp add: syncLinkedScorecards_def)
  have "questions s ! i =
           (case scorecardData (qconfig (questions s ! i)) of
              None \<Rightarrow> questions s ! i
            | Some sc \<Rightarrow>
                (case sc_id sc of
                   NumId n \<Rightarrow> questions s ! i
                 | StrId x \<Rightarrow>
                     if x = sourceId then
                       (questions s ! i)
                         \<lparr> qconfig := (qconfig (questions s ! i))
                             \<lparr> scorecardData :=
                                 Some (sc\<lparr> sc_name := (case newName of Some n \<Rightarrow> n
                                                         | None \<Rightarrow> sc_name sc),
                                           criteria := (case newCriteria of Some cs \<Rightarrow> cs
                                                        | None \<Rightarrow> criteria sc) \<rparr>) \<rparr> \<rparr>
                     else questions s ! i))"
    if "i < length (questions s)" for i
  proof -
    from assms that have "\<not> has_empty_scorecard_id (questions s ! i)"
      by (auto simp: list_ex_iff)
    then show ?thesis
      using True
      by (cases "scorecardData (qconfig (questions s ! i))")
         (auto simp: has_empty_scorecard_id_def split: scorecard_id.splits)
  qed
  then show ?thesis
    unfolding same by blast
next
  case False
  with syncLinkedScorecards_cases [of sourceId p newName newCriteria s] show ?thesis
    by (auto split: option.splits scorecard_id.splits)
qed

theorem syncLinkedScorecards_frame_witness:
  "questions (syncLinkedScorecards demo_props ''u1'' (Some ''Rubric B'') None
      (demo_state [with_scorecard (demo_scorecard (StrId ''u1'') True) (demo_question ''1'' Subjective),
                   with_scorecard (demo_scorecard (NumId 7) False) (demo_question ''2'' Subjective),
                   demo_question ''3'' Objective] 0 ScorecardTab)) ! 0
    = with_scorecard ((demo_scorecard (StrId ''u1'') True)\<lparr> sc_name := ''Rubric B'' \<rparr>)
        (demo_question ''1'' Subjective)
   \<and> questions (syncLinkedScorecards demo_props ''u1'' (Some ''Rubric B'') None
      (demo_state [with_scorecard (demo_scorecard (StrId ''u1'') True) (demo_question ''1'' Subjective),
                   with_scorecard (demo_scorecard (NumId 7) False) (demo_question ''2'' Subjective),
                   demo_question ''3'' Objective] 0 ScorecardTab)) ! 1
    = with_scorecard (demo_scorecard (NumId 7) False) (demo_question ''2'' Subjective)
   \<and> questions (syncLinkedScorecards demo_props [] (Some ''Rubric B'') None
      (demo_state [with_scorecard (demo_scorecard (StrId ''u1'') True) (demo_question ''1'' Subjective),
                   with_scorecard (demo_scorecard (NumId 7) False) (demo_question ''2'' Subjective),
                   demo_question ''3'' Objective] 0 ScorecardTab)) ! 0
    = with_scorecard (demo_scorecard (StrId ''u1'') True) (demo_question ''1'' Subjective)"
  using syncLinkedScorecards_frame
     [where sourceId = "''u1''" and p = demo_props and newName = "Some ''Rubric B''"
        and newCriteria = None
        and s = "demo_state [with_scorecard (demo_scorecard (StrId ''u1'') True) (demo_question ''1'' Subjective),
                   with_scorecard (demo_scorecard (NumId 7) False) (demo_question ''2'' Subjective),
                   demo_question ''3'' Objective] 0 ScorecardTab"]
    syncLinkedScorecards_frame
     [where sourceId = "[]" and p = demo_props and newName = "Some ''Rubric B''"
        and newCriteria = None
        and s = "demo_state [with_scorecard (demo_scorecard (StrId ''u1'') True) (demo_question ''1'' Subjective),
                   with_scorecard (demo_scorecard (NumId 7) False) (demo_question ''2'' Subjective),
                   demo_question ''3'' Objective] 0 ScorecardTab"]
  by (simp add: demo_state_def with_scorecard_def demo_scorecard_def demo_question_def
      has_empty_scorecard_id_def defaultQuestionConfig_def syncLinkedScorecards_def
      syncQuestion_def onChange_def emit_def demo_props_def)


text \<open>
  C3, as stated, fails on a second question that links to the same scorecard: deleting
  the scorecard on the first question removes the reference from the second one too.
\<close>

theorem removeScorecard_other_question_counterexample:
  "currentQuestionIndex
     (demo_state [with_scorecard (demo_scorecard (StrId ''u1'') True) (demo_question ''1'' Subjective),
                  with_scorecard (demo_scorecard (StrId ''u1'') False) (demo_question ''2'' Subjective)]
        0 ScorecardTab) = 0
   \<and> scorecardData (qconfig
        (with_scorecard (demo_scorecard (StrId ''u1'') False) (demo_question ''2'' Subjective)))
       = Some (demo_scorecard (StrId ''u1'') False)
   \<and> (case removeScorecardFromSchoolScoreboards demo_props
         (demo_state [with_scorecard (demo_scorecard (StrId ''u1'') True) (demo_question ''1'' Subjective),
                      with_scorecard (demo_scorecard (StrId ''u1'') False) (demo_question ''2'' Subjective)]
            0 ScorecardTab) of
         Inl e \<Rightarrow> False
       | Inr s' \<Rightarrow> scorecardData (qconfig (questions s' ! 1)) = None)"
  by (simp add: removeScorecardFromSchoolScoreboards_def demo_state_def with_scorecard_def
      demo_scorecard_def demo_question_def detach_def onChange_def emit_def Let_def)

lemma reference_count_detach: "reference_count i (map (detach i) qs) = 0"
  by (induction qs) (auto simp: reference_count_def detach_def split: option.splits)

lemma detach_nth:
  "detach i q =
     (case scorecardData (qconfig q) of
        None \<Rightarrow> q
      | Some sc \<Rightarrow> if sc_id sc = i then q\<lparr> qconfig := (qconfig q)\<lparr> scorecardData := None \<rparr> \<rparr> else q)"
  by (simp add: detach_def split: option.splits)

text \<open>
  C3, amended. With a scorecard on the current question,
  \<^verbatim>\<open>removeScorecardFromSchoolScoreboards\<close> removes the scorecard reference from every
  question whose scorecard has the same id, the current question among them, and leaves
  all other questions and all other fields as they are; afterwards no question references
  that id. The pool loses the scorecards of that id exactly when the current question's
  scorecard is marked new; a published scorecard is never removed from the pool.
\<close>

theorem removeScorecard_detaches_every_reference:
  assumes "currentQuestionIndex s < length (questions s)"
    and "scorecardData (qconfig (questions s ! currentQuestionIndex s)) = Some sc"
  shows
   "case removeScorecardFromSchoolScoreboards p s of
      Inl e \<Rightarrow> False
    | Inr s' \<Rightarrow>
        length (questions s') = length (questions s)
        \<and> (\<forall>i < length (questions s).
              questions s' ! i =
                (case scorecardData (qconfig (questions s ! i)) of
                   None \<Rightarrow> questions s ! i
                 | Some x \<Rightarrow>
                     if sc_id x = sc_id sc
                     then (questions s ! i)
                            \<lparr> qconfig := (qconfig (questions s ! i))\<lparr> scorecardData := None \<rparr> \<rparr>
                     else questions s ! i))
        \<and> scorecardData (qconfig (questions s' ! currentQuestionIndex s)) = None
        \<and> reference_count (sc_id sc) (questions s') = 0
        \<and> schoolScorecards s' =
            (if sc_new sc then filter (\<lambda>x. sc_id x \<noteq> sc_id sc) (schoolScorecards s)
             else schoolScorecards s)
        \<and> (isPublishedScorecard sc \<longrightarrow> schoolScorecards s' = schoolScorecards s)"
  using assms
  by (auto simp: removeScorecardFromSchoolScoreboards_def onChange_def emit_def Let_def
      reference_count_detach detach_nth isPublishedScorecard_def split: option.splits)

theorem removeScorecard_detaches_every_reference_witness:
  "case removeScorecardFromSchoolScoreboards demo_props
         ((demo_state [with_scorecard (demo_scorecard (StrId ''u1'') True) (demo_question ''1'' Subjective),
                      with_scorecard (demo_scorecard (NumId 7) False) (demo_question ''2'' Subjective)]
            0 ScorecardTab)
           \<lparr> schoolScorecards := [demo_scorecard (NumId 7) False, demo_scorecard (StrId ''u1'') True] \<rparr>) of
     Inl e \<Rightarrow> False
   | Inr s' \<Rightarrow>
       schoolScorecards s' = [demo_scorecard (NumId 7) False]
       \<and> map (\<lambda>q. map_option sc_id (scorecardData (qconfig q))) (questions s')
           = [None, Some (NumId 7)]"
  using removeScorecard_detaches_every_reference
     [of "(demo_state [with_scorecard (demo_scorecard (StrId ''u1'') True) (demo_question ''1'' Subjective),
                      with_scorecard (demo_scorecard (NumId 7) False) (demo_question ''2'' Subjective)]
            0 ScorecardTab)
           \<lparr> schoolScorecards := [demo_scorecard (NumId 7) False, demo_scorecard (StrId ''u1'') True] \<rparr>"
         "demo_scorecard (StrId ''u1'') True" demo_props]
  by (simp add: removeScorecardFromSchoolScoreboards_def demo_state_def with_scorecard_def
      demo_scorecard_def demo_question_def detach_def onChange_def emit_def Let_def)

section \<open>Coding languages\<close>

lemma validateLanguageOptions_cases:
  "validateLanguageOptions table sel =
     (if filter is_exclusive sel \<noteq> [] \<and> 1 < length sel then
        ([last (filter is_exclusive sel)],
         opt_label (last (filter is_exclusive sel))
           @ '' must be used alone. Other languages cannot be added along with it.'')
      else if filter is_exclusive sel = [] \<and> ''css'' \<in> set (map opt_value sel)
              \<and> ''html'' \<notin> set (map opt_value sel) then
        (case find (\<lambda>opt. opt_value opt = ''html'') table of
           Some htmlOption \<Rightarrow>
             (sel @ [htmlOption],
              ''HTML has been automatically selected because CSS requires HTML'')
         | None \<Rightarrow> (sel, []))
      else (sel, []))"
proof -
  have css: "list_ex (\<lambda>opt. opt_value opt = v) sel = (v \<in> set (map opt_value sel))" for v
    by (auto simp: list_ex_iff)
  show ?thesis
    unfolding validateLanguageOptions_def css Let_def
    by (auto split: option.splits)
qed

lemma handleConfigChange_languages:
  "currentQuestionIndex s < length (questions s) \<Longrightarrow>
   \<exists>s'. handleConfigChange p (\<lambda>c. c\<lparr> codingLanguages := v \<rparr>) None s = Inr s'
        \<and> codingLanguages (qconfig (questions s' ! currentQuestionIndex s)) = v
        \<and> selectedCodingLanguages s' = selectedCodingLanguages s
        \<and> toast s' = toast s"
  by (auto simp: handleConfigChange_def Let_def onChange_def emit_def)

text \<open>
  C8. With a current question and an \<open>html\<close> entry in the language table,
  \<^verbatim>\<open>handleCodingLanguageChange\<close> stores, as the dropdown's selection and as the current
  question's \<^verbatim>\<open>codingLanguages\<close>: the last exclusive language alone when the selection has
  more than one language and an exclusive one among them, with a notice; the selection
  plus \<open>html\<close> when it has no exclusive language and has \<open>css\<close> without \<open>html\<close>, with a
  notice; and the selection itself otherwise, with no notice.
\<close>

theorem handleCodingLanguageChange_exclusivity:
  assumes idx: "currentQuestionIndex s < length (questions s)"
    and html: "find (\<lambda>opt. opt_value opt = ''html'') codingLanguageOptions = Some htmlOption"
  shows
   "case handleCodingLanguageChange p codingLanguageOptions option s of
      Inl e \<Rightarrow> False
    | Inr s' \<Rightarrow>
        codingLanguages (qconfig (questions s' ! currentQuestionIndex s))
          = Some (map opt_value (selectedCodingLanguages s'))
        \<and> (if 1 < length (selection_list option)
               \<and> filter is_exclusive (selection_list option) \<noteq> []
            then selectedCodingLanguages s' = [last (filter is_exclusive (selection_list option))]
                 \<and> (\<exists>notice. notice \<noteq> [] \<and> toast s' = Some (''Language Selection Updated'', notice))
            else if filter is_exclusive (selection_list option) = []
                    \<and> ''css'' \<in> set (map opt_value (selection_list option))
                    \<and> ''html'' \<notin> set (map opt_value (selection_list option))
            then selectedCodingLanguages s' = selection_list option @ [htmlOption]
                 \<and> (\<exists>notice. notice \<noteq> [] \<and> toast s' = Some (''Language Selection Updated'', notice))
            else selectedCodingLanguages s' = selection_list option
                 \<and> toast s' = toast s)"
proof -
  let ?v = "validateLanguageOptions codingLanguageOptions (selection_list option)"
  let ?s1 = "s\<lparr> selectedCodingLanguages := fst ?v \<rparr>"
  have "currentQuestionIndex ?s1 < length (questions ?s1)" using idx by simp
  from handleConfigChange_languages [OF this, of p "Some (map opt_value (fst ?v))"]
  obtain s2 where s2: "handleConfigChange p (\<lambda>c. c\<lparr> codingLanguages := Some (map opt_value (fst ?v)) \<rparr>) None ?s1 = Inr s2"
    and l: "codingLanguages (qconfig (questions s2 ! currentQuestionIndex s)) = Some (map opt_value (fst ?v))"
    and sel: "selectedCodingLanguages s2 = fst ?v" and t: "toast s2 = toast s"
    by auto
  have r: "handleCodingLanguageChange p codingLanguageOptions option s =
      Inr (if snd ?v \<noteq> [] then s2\<lparr> toast := Some (''Language Selection Updated'', snd ?v) \<rparr> else s2)"
    by (simp add: handleCodingLanguageChange_def Let_def s2)
  show ?thesis
    unfolding r using l sel t html
    by (simp add: validateLanguageOptions_cases)
qed

theorem handleCodingLanguageChange_exclusivity_witness:
  "(case handleCodingLanguageChange demo_props [lang ''javascript'', lang ''html'', lang ''css'', lang ''python'']
           (Many [lang ''html'', lang ''python'', lang ''sql'', lang ''css''])
           (demo_state [demo_question ''1'' Coding] 0 QuestionTab) of
      Inl e \<Rightarrow> False
    | Inr s' \<Rightarrow> selectedCodingLanguages s' = [lang ''sql''] \<and> toast s' \<noteq> None)
   \<and> (case handleCodingLanguageChange demo_props [lang ''javascript'', lang ''html'', lang ''css'', lang ''python'']
           (Many [lang ''css'', lang ''javascript''])
           (demo_state [demo_question ''1'' Coding] 0 QuestionTab) of
      Inl e \<Rightarrow> False
    | Inr s' \<Rightarrow> selectedCodingLanguages s' = [lang ''css'', lang ''javascript'', lang ''html'']
                 \<and> toast s' \<noteq> None)
   \<and> (case handleCodingLanguageChange demo_props [lang ''javascript'', lang ''html'', lang ''css'', lang ''python'']
           (Single (lang ''python''))
           (demo_state [demo_question ''1'' Coding] 0 QuestionTab) of
      Inl e \<Rightarrow> False
    | Inr s' \<Rightarrow> selectedCodingLanguages s' = [lang ''python''] \<and> toast s' = None)"
  using handleCodingLanguageChange_exclusivity
     [where s = "demo_state [demo_question ''1'' Coding] 0 QuestionTab"
        and codingLanguageOptions = "[lang ''javascript'', lang ''html'', lang ''css'', lang ''python'']"
        and htmlOption = "lang ''html''" and p = demo_props
        and option = "Many [lang ''html'', lang ''python'', lang ''sql'', lang ''css'']"]
    handleCodingLanguageChange_exclusivity
     [where s = "demo_state [demo_question ''1'' Coding] 0 QuestionTab"
        and codingLanguageOptions = "[lang ''javascript'', lang ''html'', lang ''css'', lang ''python'']"
        and htmlOption = "lang ''html''" and p = demo_props
        and option = "Many [lang ''css'', lang ''javascript'']"]
    handleCodingLanguageChange_exclusivity
     [where s = "demo_state [demo_question ''1'' Coding] 0 QuestionTab"
        and codingLanguageOptions = "[lang ''javascript'', lang ''html'', lang ''css'', lang ''python'']"
        and htmlOption = "lang ''html''" and p = demo_props
        and option = "Single (lang ''python'')"]
  by (auto simp: demo_state_def lang_def selection_list_def is_exclusive_def
      exclusiveLanguages_def initial_state_def split: sum.splits)

section \<open>Changing the question type\<close>

lemma template_has_no_id: "\<not> list_ex has_id (getQuestionTemplateBlocks t)"
  by (simp add: getQuestionTemplateBlocks_def commonBlocks_def answerTypeBlocks_def
      programmingLanguagesBlocks_def tabsExplanationBlocks_def blockTypesBlocks_def
      effectiveQuestionsBlocks_def questionTypeTipsBlocks_def previewPublishBlocks_def has_id_def)

lemma tab_labels:
  "map item_label (filter (\<lambda>b. btype b = ''bulletListItem'') (tabsExplanationBlocks t))
     = [''Question'', second_tab_label t, ''AI Training'']"
  by (cases t) (simp_all add: tabsExplanationBlocks_def item_label_def inline_text_def second_tab_label_def)

text \<open>What \<^verbatim>\<open>handleQuestionTypeChange\<close> does for any status of the quiz: the template is
  replaced only under \<^verbatim>\<open>status === 'draft'\<close>.\<close>

lemma handleQuestionTypeChange_cases:
  assumes "currentQuestionIndex s < length (questions s)"
  shows
   "\<exists>s'. handleQuestionTypeChange p (Single newType) s = Inr s'
      \<and> questions s' =
          (questions s)
            [currentQuestionIndex s :=
               (questions s ! currentQuestionIndex s)
                 \<lparr> qconfig :=
                     (qconfig (questions s ! currentQuestionIndex s))
                       \<lparr> questionType := newType,
                         responseType := (if newType = Subjective then Report else Chat),
                         inputType := (if newType = Coding then TextInput
                                       else inputType
                                              (qconfig (questions s ! currentQuestionIndex s))) \<rparr>,
                   qcontent :=
                     (if status p = Draft
                         \<and> \<not> list_ex has_id (qcontent (questions s ! currentQuestionIndex s))
                      then getQuestionTemplateBlocks newType
                      else qcontent (questions s ! currentQuestionIndex s)) \<rparr>]
      \<and> activeEditorTab s' = QuestionTab
      \<and> currentQuestionIndex s' = currentQuestionIndex s"
  using assms
  by (auto simp: handleQuestionTypeChange_def handleConfigChange_def Let_def onChange_def
      emit_def currentQuestionConfig_def)

text \<open>
  C9. The question type can be changed in a draft only (the dropdown is disabled for a
  published quiz). There, for the current question, \<^verbatim>\<open>handleQuestionTypeChange\<close> sets the
  question type and the response type derived from it (report for subjective, chat
  otherwise), makes the question tab active, and replaces the content by the template of
  the new type exactly when no block of the content carries an id; when some block
  carries one, the content is left as it is. No other question changes. The template
  contains the tab explanation of its type, whose list items name the tabs: Question,
  then Scorecard for a subjective question and Correct Answer for an objective or coding
  one, then AI Training.
\<close>

theorem handleQuestionTypeChange_template:
  assumes "currentQuestionIndex s < length (questions s)"
    and "status p = Draft"
  shows
   "case handleQuestionTypeChange p (Single newType) s of
      Inl e \<Rightarrow> False
    | Inr s' \<Rightarrow>
        questionType (qconfig (questions s' ! currentQuestionIndex s)) = newType
        \<and> responseType (qconfig (questions s' ! currentQuestionIndex s))
            = (if newType = Subjective then Report else Chat)
        \<and> activeEditorTab s' = QuestionTab
        \<and> currentQuestionIndex s' = currentQuestionIndex s
        \<and> qcontent (questions s' ! currentQuestionIndex s) =
            (if \<not> list_ex has_id (qcontent (questions s ! currentQuestionIndex s))
             then getQuestionTemplateBlocks newType
             else qcontent (questions s ! currentQuestionIndex s))
        \<and> length (questions s') = length (questions s)
        \<and> (\<forall>j < length (questions s).
              j \<noteq> currentQuestionIndex s \<longrightarrow> questions s' ! j = questions s ! j)
        \<and> (\<exists>before after.
              getQuestionTemplateBlocks newType
                = before @ tabsExplanationBlocks newType @ after)
        \<and> map item_label
              (filter (\<lambda>b. btype b = ''bulletListItem'') (tabsExplanationBlocks newType))
            = [''Question'', second_tab_label newType, ''AI Training'']"
proof -
  have part: "\<exists>before after.
      getQuestionTemplateBlocks newType = before @ tabsExplanationBlocks newType @ after"
    unfolding getQuestionTemplateBlocks_def
    by (metis append.assoc)
  from handleQuestionTypeChange_cases [OF assms(1), of p newType]
  obtain s' where r: "handleQuestionTypeChange p (Single newType) s = Inr s'"
    and q: "questions s' =
          (questions s)
            [currentQuestionIndex s :=
               (questions s ! currentQuestionIndex s)
                 \<lparr> qconfig :=
                     (qconfig (questions s ! currentQuestionIndex s))
                       \<lparr> questionType := newType,
                         responseType := (if newType = Subjective then Report else Chat),
                         inputType := (if newType = Coding then TextInput
                                       else inputType
                                              (qconfig (questions s ! currentQuestionIndex s))) \<rparr>,
                   qcontent :=
                     (if status p = Draft
                         \<and> \<not> list_ex has_id (qcontent (questions s ! currentQuestionIndex s))
                      then getQuestionTemplateBlocks newType
                      else qcontent (questions s ! currentQuestionIndex s)) \<rparr>]"
    and t: "activeEditorTab s' = QuestionTab"
    and i: "currentQuestionIndex s' = currentQuestionIndex s"
    by blast
  show ?thesis
    unfolding r using assms part tab_labels [of newType] t i
    by (simp add: q)
qed

theorem handleQuestionTypeChange_template_witness:
  "(case handleQuestionTypeChange demo_props (Single Subjective)
            (demo_state [pristine_question ''1'' Objective] 0 AnswerTab) of
      Inl e \<Rightarrow> False
    | Inr s' \<Rightarrow> qcontent (questions s' ! 0) = getQuestionTemplateBlocks Subjective
                 \<and> activeEditorTab s' = QuestionTab
                 \<and> responseType (qconfig (questions s' ! 0)) = Report)
   \<and> (case handleQuestionTypeChange demo_props (Single Coding)
            (demo_state [demo_question ''1'' Objective] 0 AnswerTab) of
      Inl e \<Rightarrow> False
    | Inr s' \<Rightarrow> qcontent (questions s' ! 0) = qcontent (demo_question ''1'' Objective)
                 \<and> questionType (qconfig (questions s' ! 0)) = Coding)
   \<and> second_tab_label Subjective = ''Scorecard''"
  using handleQuestionTypeChange_template
      [where s = "demo_state [pristine_question ''1'' Objective] 0 AnswerTab"
         and p = demo_props and newType = Subjective]
    handleQuestionTypeChange_template
      [where s = "demo_state [demo_question ''1'' Objective] 0 AnswerTab"
         and p = demo_props and newType = Coding]
  by (simp add: demo_state_def demo_props_def pristine_question_def demo_question_def has_id_def
      second_tab_label_def split: sum.splits)


section \<open>Loading\<close>

text \<open>
  When the request for the task fails, \<^verbatim>\<open>fetchQuestions\<close> logs the error, marks the data
  as fetched and ends the loading state, and the questions stay as they were. When the
  request for the scorecards fails, the state is the old one but for the log line.
\<close>

lemma fetchQuestions_failure_completes:
  assumes "\<forall>data. taskResponse \<noteq> Json data"
  shows "isLoadingQuestions (fetchQuestions p taskResponse scs s) = False
     \<and> questions (fetchQuestions p taskResponse scs s) = questions s
     \<and> (truthy (taskId p) \<and> \<not> hasFetchedData s \<longrightarrow>
          hasFetchedData (fetchQuestions p taskResponse scs s)
          \<and> emitted (fetchQuestions p taskResponse scs s)
              = emitted s @ [ConsoleError ''Error fetching quiz questions:''])"
  using assms by (cases taskResponse) (auto simp: fetchQuestions_def emit_def)

lemma fetchSchoolScorecards_task_failure_completes:
  assumes "\<forall>data. taskResponse \<noteq> Json data"
    and "scorecardResponse = Json NotAnArray
         \<or> (\<exists>data t. scorecardResponse = Json (ScorecardArray data)
                        \<and> transformScorecards data = Inr t)
         \<or> schoolId p = None"
  shows "isLoadingQuestions (fetchSchoolScorecards p scorecardResponse taskResponse s) = False
     \<and> questions (fetchSchoolScorecards p scorecardResponse taskResponse s) = questions s"
  using assms(2) fetchQuestions_failure_completes [OF assms(1)]
  by (auto simp: fetchSchoolScorecards_def Let_def truthy_def)

lemma fetchSchoolScorecards_scorecard_failure:
  assumes "schoolId p = Some i" "i \<noteq> []" "\<forall>data. scorecardResponse \<noteq> Json data"
  shows "fetchSchoolScorecards p scorecardResponse taskResponse s
     = s\<lparr> isLoadingScorecards := False,
           emitted := emitted s @ [ConsoleError ''Error fetching school scorecards:''] \<rparr>"
  using assms
  by (cases scorecardResponse) (auto simp: fetchSchoolScorecards_def Let_def emit_def truthy_def)

text \<open>
  C4 fails on the code when the scorecard request fails. \<^verbatim>\<open>fetchSchoolScorecards\<close> calls
  \<^verbatim>\<open>fetchQuestions\<close> only after the scorecards have arrived, and only \<^verbatim>\<open>fetchQuestions\<close>
  ends the loading state. In a freshly mounted editor with a school id, a scorecard
  request that is answered with an error status leaves \<^verbatim>\<open>isLoadingQuestions\<close> true and
  \<^verbatim>\<open>hasFetchedData\<close> false, with one line on the console; the same editor, when the task
  request fails instead, ends with \<^verbatim>\<open>isLoadingQuestions\<close> false and \<^verbatim>\<open>hasFetchedData\<close>
  true.
\<close>

theorem load_scorecard_failure_keeps_loading:
  "isLoadingQuestions mounted
   \<and> fetchSchoolScorecards demo_props HttpNotOk (Json (Some [demo_api_question])) mounted
       = mounted\<lparr> emitted := [ConsoleError ''Error fetching school scorecards:''] \<rparr>
   \<and> isLoadingQuestions
       (fetchSchoolScorecards demo_props HttpNotOk (Json (Some [demo_api_question])) mounted)
   \<and> \<not> hasFetchedData
       (fetchSchoolScorecards demo_props HttpNotOk (Json (Some [demo_api_question])) mounted)
   \<and> \<not> isLoadingQuestions
       (fetchSchoolScorecards demo_props (Json (ScorecardArray [])) HttpNotOk mounted)
   \<and> hasFetchedData
       (fetchSchoolScorecards demo_props (Json (ScorecardArray [])) HttpNotOk mounted)"
  by (simp add: fetchSchoolScorecards_def fetchQuestions_def mounted_def initial_state_def
      demo_props_def emit_def Let_def truthy_def)

end
